theory Spec2Isabelle
  imports Main "HOL-Library.Word"
begin

section \<open>The icon generator of generate_app_icons.py\<close>

text \<open>
  The script has one function, \<open>generate_app_icons\<close>: it creates the destination directory,
  loads one source image, writes thirteen resized PNG files and one \<open>Contents.json\<close>, and
  returns a boolean. Everything it does is an effect on the file system or on standard output,
  carried out by \<open>os\<close>, \<open>json\<close> and \<open>PIL\<close>. The embedding makes these effects explicit:
  a \<open>world\<close> holds the files, the directories, the printed lines and the history of completed
  file writes; every library call is a function on the world that returns either the exception
  it raises (\<open>Inl\<close>) or its result (\<open>Inr\<close>). What the script cannot know of the machine it runs
  on is a parameter: the \<open>host\<close> (which lines the terminal refuses, which file a path names)
  and the \<open>env\<close> (which library calls fail, and PIL's pixel arithmetic).
\<close>

subsection \<open>Images, JSON values and files\<close>

type_synonym path = string

type_synonym byte = "8 word"

text \<open>A pixel is the tuple \<open>getdata()\<close> shows: one byte for each band of the mode.\<close>

type_synonym pixel = "byte list"

record image =
  mode :: string
  size_wh :: "nat \<times> nat"
  pixels :: "pixel list"

text \<open>A Python dict keeps the order of insertion, so an object is an association list.\<close>

datatype json =
    JString string
  | JInt int
  | JArray "json list"
  | JObject "(string \<times> json) list"

text \<open>
  What a file holds. An image file is kept as its format and the image a decoder reads from it;
  \<open>JsonText v n\<close> is the text \<open>json.dump(v, f, indent=n)\<close> writes. Both encoders are functions
  of the value written, so equal contents here are equal bytes on disk. \<open>Torn\<close> is what is left
  of a file whose writer failed after the file had been opened for writing.
\<close>

datatype content =
    ImageFile string image
  | JsonText json nat
  | Text string
  | Torn

text \<open>All of these are subclasses of Python's \<open>Exception\<close>, which \<open>except Exception\<close> catches.\<close>

datatype exn =
    FileNotFoundError path
  | FileExistsError path
  | NotADirectoryError
  | UnidentifiedImageError path
  | ValueError
  | IndexError
  | UnicodeEncodeError
  | OSError string
  | MemoryError

text \<open>
  The lines the script prints, one constructor for each \<open>print\<close> of the source (the literal
  texts begin with characters outside ASCII and are not reproduced).
\<close>

datatype msg =
    Loading path
  | Loaded "nat \<times> nat"
  | Generating nat string
  | Saved path
  | GeneratedContents path
  | Complete
  | Error exn

datatype resampling = NEAREST | BOX | BILINEAR | HAMMING | BICUBIC | LANCZOS

subsection \<open>The environment and the world\<close>

text \<open>
  The library calls the script makes. \<open>Image.save\<close> has two places to fail: opening the file,
  and encoding into the file once it is open.
\<close>

datatype call =
    Call_makedirs path
  | Call_Image_open path
  | Call_convert string
  | Call_resize "nat \<times> nat"
  | Call_new "nat \<times> nat"
  | Call_split "nat \<times> nat"
  | Call_paste "nat \<times> nat"
  | Call_save_open path
  | Call_save_encode path
  | Call_open_w path
  | Call_json_dump path

text \<open>
  What the repository does not determine: which calls the operating system or the library
  refuses (\<open>fault\<close>: permissions, a full disk, a truncated source file, lack of memory), and the
  pixel arithmetic of PIL's mode conversion and of its resampling filters.
\<close>

record env =
  fault :: "call \<Rightarrow> exn option"
  converted :: "image \<Rightarrow> string \<Rightarrow> pixel list"
  resampled :: "resampling \<Rightarrow> image \<Rightarrow> nat \<times> nat \<Rightarrow> pixel list"

text \<open>
  The machine. \<open>console\<close> gives the exception \<open>print\<close> raises on a line, if any (a terminal
  whose encoding lacks a character of the line raises \<open>UnicodeEncodeError\<close>). \<open>names\<close> gives
  the file a path names: the path itself, unless a hard link, a symbolic link or a file system
  that folds case leads to a file known under another path.
\<close>

record host =
  console :: "msg \<Rightarrow> exn option"
  names :: "path \<Rightarrow> path"

text \<open>
  \<open>files\<close> holds the content of each file, under the path \<open>names\<close> gives it. \<open>written\<close> is
  the history of the file writes that ran to completion, oldest first, under the paths the
  script wrote to.
\<close>

record world =
  files :: "path \<Rightarrow> content option"
  dirs :: "path set"
  stdout :: "msg list"
  written :: "path list"

type_synonym 'a io = "world \<Rightarrow> (exn + 'a) \<times> world"

definition return_io :: "'a \<Rightarrow> 'a io" where
  "return_io x = (\<lambda>w. (Inr x, w))"

definition raise_io :: "exn \<Rightarrow> 'a io" where
  "raise_io e = (\<lambda>w. (Inl e, w))"

definition bind_io :: "'a io \<Rightarrow> ('a \<Rightarrow> 'b io) \<Rightarrow> 'b io" where
  "bind_io m f = (\<lambda>w. case m w of (Inl e, w') \<Rightarrow> (Inl e, w') | (Inr x, w') \<Rightarrow> f x w')"

text \<open>\<open>try: m except Exception as e: h e\<close>\<close>

definition try_except :: "'a io \<Rightarrow> (exn \<Rightarrow> 'a io) \<Rightarrow> 'a io" where
  "try_except m h = (\<lambda>w. case m w of (Inl e, w') \<Rightarrow> h e w' | (Inr x, w') \<Rightarrow> (Inr x, w'))"

text \<open>A \<open>for\<close> loop over a list: the first iteration that raises ends the loop.\<close>

fun for_each :: "'a list \<Rightarrow> ('a \<Rightarrow> unit io) \<Rightarrow> unit io" where
  "for_each [] body = return_io ()"
| "for_each (x # xs) body = bind_io (body x) (\<lambda>_. for_each xs body)"

text \<open>The start of every library call: the environment may refuse it with an exception.\<close>

definition refused :: "env \<Rightarrow> call \<Rightarrow> unit io" where
  "refused env c = (case fault env c of Some e \<Rightarrow> raise_io e | None \<Rightarrow> return_io ())"

text \<open>\<open>print\<close> adds a line to standard output, unless the terminal refuses the line.\<close>

definition print_on :: "host \<Rightarrow> msg \<Rightarrow> unit io" where
  "print_on host m = (\<lambda>w.
     case console host m of
       Some e \<Rightarrow> (Inl e, w)
     | None \<Rightarrow> (Inr (), w\<lparr>stdout := stdout w @ [m]\<rparr>))"

subsection \<open>os and json\<close>

text \<open>\<open>posixpath.join\<close> with two arguments.\<close>

definition os_path_join :: "path \<Rightarrow> path \<Rightarrow> path" where
  "os_path_join a b =
     (if take 1 b = ''/'' then b
      else if a = [] \<or> last a = CHR ''/'' then a @ b
      else a @ ''/'' @ b)"

text \<open>
  The directories \<open>os.makedirs\<close> walks through: every prefix of the path that ends before a
  separator, and the path itself.
\<close>

definition dir_chain :: "path \<Rightarrow> path list" where
  "dir_chain p =
     map (\<lambda>n. take n p)
       (filter (\<lambda>n. n = length p \<or> p ! n = CHR ''/'') [1..<Suc (length p)])"

text \<open>
  \<open>os.makedirs(p, exist_ok=True)\<close>: an existing directory is accepted; a regular file at \<open>p\<close>
  is \<open>FileExistsError\<close>, a regular file above \<open>p\<close> is \<open>NotADirectoryError\<close>.
\<close>

definition os_makedirs_on :: "host \<Rightarrow> env \<Rightarrow> path \<Rightarrow> unit io" where
  "os_makedirs_on host env p =
     bind_io (refused env (Call_makedirs p)) (\<lambda>_ w.
       case find (\<lambda>d. files w (names host d) \<noteq> None) (dir_chain p) of
         Some d \<Rightarrow> (Inl (if d = p then FileExistsError p else NotADirectoryError), w)
       | None \<Rightarrow> (Inr (), w\<lparr>dirs := dirs w \<union> set (dir_chain p)\<rparr>))"

text \<open>\<open>open(p, 'w')\<close>: the file is created or emptied; the handle is the path.\<close>

definition open_w_on :: "host \<Rightarrow> env \<Rightarrow> path \<Rightarrow> path io" where
  "open_w_on host env p =
     bind_io (refused env (Call_open_w p)) (\<lambda>_ w.
       (Inr p, w\<lparr>files := (files w)(names host p \<mapsto> Text [])\<rparr>))"

text \<open>\<open>json.dump(v, f, indent=n)\<close> followed by the close of the \<open>with\<close> block.\<close>

definition json_dump_on :: "host \<Rightarrow> env \<Rightarrow> json \<Rightarrow> path \<Rightarrow> nat \<Rightarrow> unit io" where
  "json_dump_on host env v f n = (\<lambda>w.
     case fault env (Call_json_dump f) of
       Some e \<Rightarrow> (Inl e, w\<lparr>files := (files w)(names host f \<mapsto> Torn)\<rparr>)
     | None \<Rightarrow>
         (Inr (), w\<lparr>files := (files w)(names host f \<mapsto> JsonText v n),
                    written := written w @ [f]\<rparr>))"

subsection \<open>PIL\<close>

text \<open>\<open>Image.open\<close>: the file must exist and hold an image some decoder identifies.\<close>

definition Image_open_on :: "host \<Rightarrow> env \<Rightarrow> path \<Rightarrow> image io" where
  "Image_open_on host env p =
     bind_io (refused env (Call_Image_open p)) (\<lambda>_ w.
       case files w (names host p) of
         None \<Rightarrow> (Inl (FileNotFoundError p), w)
       | Some (ImageFile fmt im) \<Rightarrow> (Inr im, w)
       | Some _ \<Rightarrow> (Inl (UnidentifiedImageError p), w))"

text \<open>\<open>im.convert(m)\<close>: a new image of mode \<open>m\<close> and the same size.\<close>

definition convert_image :: "env \<Rightarrow> image \<Rightarrow> string \<Rightarrow> image" where
  "convert_image env im m = \<lparr>mode = m, size_wh = size_wh im, pixels = converted env im m\<rparr>"

definition Image_convert :: "env \<Rightarrow> image \<Rightarrow> string \<Rightarrow> image io" where
  "Image_convert env im m =
     bind_io (refused env (Call_convert m)) (\<lambda>_. return_io (convert_image env im m))"

text \<open>\<open>im.resize(size, resample)\<close>: a new image of the same mode and the size asked for.\<close>

definition resize_image :: "env \<Rightarrow> image \<Rightarrow> nat \<times> nat \<Rightarrow> resampling \<Rightarrow> image" where
  "resize_image env im sz flt = \<lparr>mode = mode im, size_wh = sz, pixels = resampled env flt im sz\<rparr>"

definition Image_resize :: "env \<Rightarrow> image \<Rightarrow> nat \<times> nat \<Rightarrow> resampling \<Rightarrow> image io" where
  "Image_resize env im sz flt =
     bind_io (refused env (Call_resize sz)) (\<lambda>_. return_io (resize_image env im sz flt))"

text \<open>\<open>Image.new(m, size, color)\<close>: every pixel is \<open>color\<close>.\<close>

definition new_image :: "string \<Rightarrow> nat \<times> nat \<Rightarrow> pixel \<Rightarrow> image" where
  "new_image m sz color = \<lparr>mode = m, size_wh = sz, pixels = replicate (fst sz * snd sz) color\<rparr>"

definition Image_new :: "env \<Rightarrow> string \<Rightarrow> nat \<times> nat \<Rightarrow> pixel \<Rightarrow> image io" where
  "Image_new env m sz color =
     bind_io (refused env (Call_new sz)) (\<lambda>_. return_io (new_image m sz color))"

text \<open>The band names of the standard modes (\<open>ImageMode.getmode(m).bands\<close>).\<close>

definition getbands :: "string \<Rightarrow> string list" where
  "getbands m =
     (if m = ''RGBA'' then [''R'', ''G'', ''B'', ''A'']
      else if m = ''RGB'' then [''R'', ''G'', ''B'']
      else if m = ''RGBX'' then [''R'', ''G'', ''B'', ''X'']
      else if m = ''RGBa'' then [''R'', ''G'', ''B'', ''a'']
      else if m = ''CMYK'' then [''C'', ''M'', ''Y'', ''K'']
      else if m = ''YCbCr'' then [''Y'', ''Cb'', ''Cr'']
      else if m = ''LAB'' then [''L'', ''A'', ''B'']
      else if m = ''HSV'' then [''H'', ''S'', ''V'']
      else if m = ''LA'' then [''L'', ''A'']
      else if m = ''La'' then [''L'', ''a'']
      else if m = ''PA'' then [''P'', ''A'']
      else [m])"

text \<open>\<open>im.split()\<close>: one image of mode \<open>L\<close> for each band.\<close>

definition split_image :: "image \<Rightarrow> image list" where
  "split_image im =
     map (\<lambda>k. \<lparr>mode = ''L'', size_wh = size_wh im, pixels = map (\<lambda>p. take 1 (drop k p)) (pixels im)\<rparr>)
       [0..<length (getbands (mode im))]"

definition Image_split :: "env \<Rightarrow> image \<Rightarrow> image list io" where
  "Image_split env im =
     bind_io (refused env (Call_split (size_wh im))) (\<lambda>_. return_io (split_image im))"

text \<open>Python's \<open>xs[-1]\<close>.\<close>

definition index_last :: "'a list \<Rightarrow> 'a io" where
  "index_last xs = (if xs = [] then raise_io IndexError else return_io (last xs))"

text \<open>
  The blend of \<open>Paste.c\<close> for a mask of mode \<open>L\<close>: \<open>BLEND8(mask, in1, in2)\<close> is
  \<open>DIV255(in1 * (255 - mask) + in2 * mask)\<close>, and \<open>DIV255(a)\<close> adds 128 and computes
  \<open>((tmp >> 8) + tmp) >> 8\<close>.
\<close>

definition DIV255 :: "nat \<Rightarrow> nat" where
  "DIV255 a = (let tmp = a + 128 in (tmp div 256 + tmp) div 256)"

definition BLEND8 :: "byte \<Rightarrow> byte \<Rightarrow> byte \<Rightarrow> byte" where
  "BLEND8 msk in1 in2 = of_nat (DIV255 (unat in1 * (255 - unat msk) + unat in2 * unat msk))"

definition paste_pixel :: "pixel \<Rightarrow> pixel \<Rightarrow> pixel \<Rightarrow> pixel" where
  "paste_pixel out inp msk =
     (case msk of [] \<Rightarrow> out | a # _ \<Rightarrow> map2 (BLEND8 a) out inp)"

text \<open>
  \<open>bg.paste(im, mask=mask)\<close> at the origin, for the modes the script pastes (an image with
  alpha into \<open>RGB\<close>, through a mask of mode \<open>L\<close>): the three images must have one size. Python
  changes \<open>bg\<close> in place; here the changed image is the result.
\<close>

definition paste_image :: "image \<Rightarrow> image \<Rightarrow> image \<Rightarrow> image" where
  "paste_image bg im msk =
     bg\<lparr>pixels := map (\<lambda>(out, inp, a). paste_pixel out inp a)
                    (zip (pixels bg) (zip (pixels im) (pixels msk)))\<rparr>"

definition Image_paste :: "env \<Rightarrow> image \<Rightarrow> image \<Rightarrow> image \<Rightarrow> image io" where
  "Image_paste env bg im msk =
     bind_io (refused env (Call_paste (size_wh bg))) (\<lambda>_.
       if size_wh im \<noteq> size_wh bg \<or> size_wh msk \<noteq> size_wh bg then raise_io ValueError
       else return_io (paste_image bg im msk))"

text \<open>
  \<open>im.save(p, fmt)\<close>. \<open>Image.save\<close> opens the file \<open>p\<close> names for writing (\<open>w+b\<close>: a file
  that is there is written over, under whatever name it is reached) and runs the encoder; when
  the encoder raises, it removes the file if the call had created it and leaves it torn if it
  was there before.
\<close>

definition Image_save_on :: "host \<Rightarrow> env \<Rightarrow> image \<Rightarrow> path \<Rightarrow> string \<Rightarrow> unit io" where
  "Image_save_on host env im p fmt =
     bind_io (refused env (Call_save_open p)) (\<lambda>_ w.
       case fault env (Call_save_encode p) of
         Some e \<Rightarrow>
           (Inl e, w\<lparr>files := (files w)(names host p :=
                         (case files w (names host p) of None \<Rightarrow> None | Some _ \<Rightarrow> Some Torn))\<rparr>)
       | None \<Rightarrow>
           (Inr (), w\<lparr>files := (files w)(names host p \<mapsto> ImageFile fmt im),
                      written := written w @ [p]\<rparr>))"

subsection \<open>generate_app_icons\<close>

definition source_path :: path where
  "source_path = ''/Users/aadi/Desktop/FlexaSwiftUI/ChatGPT Image Sep 1, 2025, 11_37_08 PM.png''"

definition dest_dir :: path where
  "dest_dir = ''/Users/aadi/Desktop/FlexaSwiftUI/FlexaSwiftUI/Assets.xcassets/AppIcon.appiconset''"

definition icon_sizes :: "(nat \<times> string) list" where
  "icon_sizes =
     [(20, ''Icon-20.png''),
      (29, ''Icon-29.png''),
      (40, ''Icon-40.png''),
      (58, ''Icon-58.png''),
      (60, ''Icon-60.png''),
      (76, ''Icon-76.png''),
      (80, ''Icon-80.png''),
      (87, ''Icon-87.png''),
      (120, ''Icon-120.png''),
      (152, ''Icon-152.png''),
      (167, ''Icon-167.png''),
      (180, ''Icon-180.png''),
      (1024, ''Icon-1024.png'')]"

definition image_entry :: "string \<Rightarrow> string \<Rightarrow> string \<Rightarrow> string \<Rightarrow> json" where
  "image_entry f i sc sz =
     JObject [(''filename'', JString f), (''idiom'', JString i),
              (''scale'', JString sc), (''size'', JString sz)]"

definition contents_json :: json where
  "contents_json =
     JObject
      [(''images'', JArray
         [image_entry ''Icon-40.png'' ''ipad'' ''1x'' ''40x40'',
          image_entry ''Icon-80.png'' ''ipad'' ''2x'' ''40x40'',
          image_entry ''Icon-60.png'' ''iphone'' ''2x'' ''30x30'',
          image_entry ''Icon-120.png'' ''iphone'' ''2x'' ''60x60'',
          image_entry ''Icon-180.png'' ''iphone'' ''3x'' ''60x60'',
          image_entry ''Icon-58.png'' ''iphone'' ''2x'' ''29x29'',
          image_entry ''Icon-87.png'' ''iphone'' ''3x'' ''29x29'',
          image_entry ''Icon-80.png'' ''iphone'' ''2x'' ''40x40'',
          image_entry ''Icon-120.png'' ''iphone'' ''3x'' ''40x40'',
          image_entry ''Icon-20.png'' ''iphone'' ''1x'' ''20x20'',
          image_entry ''Icon-40.png'' ''iphone'' ''2x'' ''20x20'',
          image_entry ''Icon-60.png'' ''iphone'' ''3x'' ''20x20'',
          image_entry ''Icon-76.png'' ''ipad'' ''1x'' ''76x76'',
          image_entry ''Icon-152.png'' ''ipad'' ''2x'' ''76x76'',
          image_entry ''Icon-167.png'' ''ipad'' ''2x'' ''83.5x83.5'',
          image_entry ''Icon-1024.png'' ''ios-marketing'' ''1x'' ''1024x1024'']),
       (''info'', JObject [(''author'', JString ''xcode''), (''version'', JInt 1)])]"

text \<open>The body of the \<open>for\<close> loop, lines 44 to 59.\<close>

definition icon_iteration_on :: "host \<Rightarrow> env \<Rightarrow> image \<Rightarrow> nat \<times> string \<Rightarrow> unit io" where
  "icon_iteration_on host env source_img = (\<lambda>(size, filename).
     bind_io (print_on host (Generating size filename)) (\<lambda>_.
     bind_io (Image_resize env source_img (size, size) LANCZOS) (\<lambda>resized.
     bind_io
       (if mode resized = ''RGBA'' then
          bind_io (Image_new env ''RGB'' (size, size) [255, 255, 255]) (\<lambda>background.
          bind_io (Image_split env resized) (\<lambda>bands.
          bind_io (index_last bands) (\<lambda>msk.
          Image_paste env background resized msk)))
        else return_io resized) (\<lambda>resized.
     bind_io (return_io (os_path_join dest_dir filename)) (\<lambda>output_path.
     bind_io (Image_save_on host env resized output_path ''PNG'') (\<lambda>_.
     print_on host (Saved output_path)))))))"

text \<open>The \<open>with\<close> block of lines 87 to 89.\<close>

definition write_contents_on :: "host \<Rightarrow> env \<Rightarrow> path \<Rightarrow> unit io" where
  "write_contents_on host env contents_path =
     bind_io (open_w_on host env contents_path) (\<lambda>f. json_dump_on host env contents_json f 2)"

text \<open>The body of the \<open>try\<close>, lines 38 to 92.\<close>

definition try_body_on :: "host \<Rightarrow> env \<Rightarrow> unit io" where
  "try_body_on host env =
     bind_io (Image_open_on host env source_path) (\<lambda>source_img.
     bind_io (Image_convert env source_img ''RGBA'') (\<lambda>source_img.
     bind_io (print_on host (Loaded (size_wh source_img))) (\<lambda>_.
     bind_io (for_each icon_sizes (icon_iteration_on host env source_img)) (\<lambda>_.
     bind_io (return_io (os_path_join dest_dir ''Contents.json'')) (\<lambda>contents_path.
     bind_io (write_contents_on host env contents_path) (\<lambda>_.
     bind_io (print_on host (GeneratedContents contents_path)) (\<lambda>_.
     print_on host Complete)))))))"

text \<open>
  The function. \<open>os.makedirs\<close> and the first \<open>print\<close> stand before the \<open>try\<close>; the handler
  prints the exception and returns \<open>False\<close>; \<open>return True\<close> follows the \<open>try\<close> statement.
  \<open>Inr b\<close> is the return of \<open>b\<close>, \<open>Inl e\<close> is the exception \<open>e\<close> leaving the function.
\<close>

definition generate_app_icons_on :: "host \<Rightarrow> env \<Rightarrow> bool io" where
  "generate_app_icons_on host env =
     bind_io (os_makedirs_on host env dest_dir) (\<lambda>_.
     bind_io (print_on host (Loading source_path)) (\<lambda>_.
     bind_io
       (try_except
          (bind_io (try_body_on host env) (\<lambda>_. return_io None))
          (\<lambda>e. bind_io (print_on host (Error e)) (\<lambda>_. return_io (Some False)))) (\<lambda>returned.
     case returned of Some b \<Rightarrow> return_io b | None \<Rightarrow> return_io True)))"

subsection \<open>The plain host\<close>

text \<open>
  A terminal that prints every line, and a file system in which every path names a file of its
  own. The script and its calls on this host:
\<close>

definition plain_host :: host where
  "plain_host = \<lparr>console = (\<lambda>_. None), names = (\<lambda>p. p)\<rparr>"

definition print :: "msg \<Rightarrow> unit io" where
  "print = print_on plain_host"

definition os_makedirs :: "env \<Rightarrow> path \<Rightarrow> unit io" where
  "os_makedirs = os_makedirs_on plain_host"

definition open_w :: "env \<Rightarrow> path \<Rightarrow> path io" where
  "open_w = open_w_on plain_host"

definition json_dump :: "env \<Rightarrow> json \<Rightarrow> path \<Rightarrow> nat \<Rightarrow> unit io" where
  "json_dump = json_dump_on plain_host"

definition Image_open :: "env \<Rightarrow> path \<Rightarrow> image io" where
  "Image_open = Image_open_on plain_host"

definition Image_save :: "env \<Rightarrow> image \<Rightarrow> path \<Rightarrow> string \<Rightarrow> unit io" where
  "Image_save = Image_save_on plain_host"

definition icon_iteration :: "env \<Rightarrow> image \<Rightarrow> nat \<times> string \<Rightarrow> unit io" where
  "icon_iteration = icon_iteration_on plain_host"

definition write_contents :: "env \<Rightarrow> path \<Rightarrow> unit io" where
  "write_contents = write_contents_on plain_host"

definition try_body :: "env \<Rightarrow> unit io" where
  "try_body = try_body_on plain_host"

definition generate_app_icons :: "env \<Rightarrow> bool io" where
  "generate_app_icons = generate_app_icons_on plain_host"

subsection \<open>The files a run writes\<close>

text \<open>The local variable \<open>output_path\<close> of an iteration, and \<open>contents_path\<close>.\<close>

definition output_path :: "nat \<times> string \<Rightarrow> path" where
  "output_path spec = os_path_join dest_dir (snd spec)"

definition contents_path :: path where
  "contents_path = os_path_join dest_dir ''Contents.json''"

definition output_paths :: "path list" where
  "output_paths = map output_path icon_sizes @ [contents_path]"

text \<open>The image an iteration hands to \<open>save\<close> when none of its calls raises.\<close>

definition icon_image :: "env \<Rightarrow> image \<Rightarrow> nat \<Rightarrow> image" where
  "icon_image env source_img edge =
     (let resized = resize_image env source_img (edge, edge) LANCZOS in
      if mode resized = ''RGBA'' then
        paste_image (new_image ''RGB'' (edge, edge) [255, 255, 255]) resized
          (last (split_image resized))
      else resized)"

subsection \<open>Reading the manifest\<close>

definition lookup_key :: "string \<Rightarrow> json \<Rightarrow> json option" where
  "lookup_key k v = (case v of JObject kvs \<Rightarrow> map_of kvs k | _ \<Rightarrow> None)"

definition keys_of :: "json \<Rightarrow> string list" where
  "keys_of v = (case v of JObject kvs \<Rightarrow> map fst kvs | _ \<Rightarrow> [])"

definition elements :: "json \<Rightarrow> json list" where
  "elements v = (case v of JArray vs \<Rightarrow> vs | _ \<Rightarrow> [])"

definition manifest_images :: "json list" where
  "manifest_images = (case lookup_key ''images'' contents_json of Some v \<Rightarrow> elements v | None \<Rightarrow> [])"

definition manifest_filenames :: "string list" where
  "manifest_filenames =
     concat (map (\<lambda>e. case lookup_key ''filename'' e of Some (JString f) \<Rightarrow> [f] | _ \<Rightarrow> []) manifest_images)"

subsection \<open>A sample environment and sample worlds\<close>

definition no_faults :: "call \<Rightarrow> exn option" where
  "no_faults = (\<lambda>_. None)"

text \<open>
  No call is refused, the conversion keeps the pixel data (right for a source that is already
  \<open>RGBA\<close>) and resampling repeats the first pixel (right for a source of one colour).
\<close>

definition plain_env :: env where
  "plain_env =
     \<lparr>fault = no_faults,
      converted = (\<lambda>im m. pixels im),
      resampled = (\<lambda>flt im sz. replicate (fst sz * snd sz) (case pixels im of [] \<Rightarrow> [] | p # _ \<Rightarrow> p))\<rparr>"

text \<open>A fully transparent source image of one pixel.\<close>

definition clear_dot :: image where
  "clear_dot = \<lparr>mode = ''RGBA'', size_wh = (1, 1), pixels = [[0, 0, 0, 0]]\<rparr>"

text \<open>Nothing but the source image exists.\<close>

definition fresh_world :: world where
  "fresh_world =
     \<lparr>files = [source_path \<mapsto> ImageFile ''PNG'' clear_dot], dirs = {}, stdout = [], written = []\<rparr>"

text \<open>Nothing exists at all: the source image is missing.\<close>

definition empty_world :: world where
  "empty_world = \<lparr>files = Map.empty, dirs = {}, stdout = [], written = []\<rparr>"

text \<open>The destination directory already holds an unrelated file.\<close>

definition notes_path :: path where
  "notes_path = os_path_join dest_dir ''notes.txt''"

definition used_world :: world where
  "used_world = fresh_world\<lparr>files := (files fresh_world)(notes_path \<mapsto> Text ''keep'')\<rparr>"

text \<open>The disk is full when the third icon is encoded.\<close>

definition full_disk_env :: env where
  "full_disk_env =
     plain_env\<lparr>fault := (\<lambda>c. if c = Call_save_encode (os_path_join dest_dir ''Icon-40.png'')
                               then Some (OSError ''No space left on device'') else None)\<rparr>"

text \<open>The directory may not be created: \<open>os.makedirs\<close> raises \<open>PermissionError\<close>.\<close>

definition denied_env :: env where
  "denied_env =
     plain_env\<lparr>fault := (\<lambda>c. if c = Call_makedirs dest_dir
                               then Some (OSError ''Permission denied'') else None)\<rparr>"

text \<open>The source image is missing, and a regular file stands where the directory should be.\<close>

definition blocked_world :: world where
  "blocked_world = empty_world\<lparr>files := [dest_dir \<mapsto> Text ''not a directory'']\<rparr>"

text \<open>A terminal that cannot encode the pictographs every line of the script begins with.\<close>

definition ascii_host :: host where
  "ascii_host = \<lparr>console = (\<lambda>_. Some UnicodeEncodeError), names = (\<lambda>p. p)\<rparr>"

text \<open>
  In the destination directory \<open>Icon-20.png\<close> is a symbolic link to \<open>notes.txt\<close>: both paths
  name the file \<open>notes.txt\<close>.
\<close>

definition linked_host :: host where
  "linked_host =
     \<lparr>console = (\<lambda>_. None),
      names = (\<lambda>p. if p = os_path_join dest_dir ''Icon-20.png'' then notes_path else p)\<rparr>"

text \<open>Memory runs out when the second icon is resized.\<close>

definition short_memory_env :: env where
  "short_memory_env =
     plain_env\<lparr>fault := (\<lambda>c. if c = Call_resize (29, 29) then Some MemoryError else None)\<rparr>"

subsection \<open>Notions for the claims\<close>

text \<open>A computation changes no file but those stored under the paths of \<open>S\<close>.\<close>

definition touches_only :: "path set \<Rightarrow> 'a io \<Rightarrow> bool" where
  "touches_only S m = (\<forall>w r w' q. m w = (r, w') \<longrightarrow> q \<notin> S \<longrightarrow> files w' q = files w q)"

text \<open>
  The script with the test of line 50 and its \<open>else\<close> branch taken out: every iteration
  composites. These three definitions differ from \<open>icon_iteration_on\<close>, \<open>try_body_on\<close> and
  \<open>generate_app_icons_on\<close> in nothing else.
\<close>

definition icon_iteration_always_composite ::
    "host \<Rightarrow> env \<Rightarrow> image \<Rightarrow> nat \<times> string \<Rightarrow> unit io" where
  "icon_iteration_always_composite host env source_img = (\<lambda>(size, filename).
     bind_io (print_on host (Generating size filename)) (\<lambda>_.
     bind_io (Image_resize env source_img (size, size) LANCZOS) (\<lambda>resized.
     bind_io
       (bind_io (Image_new env ''RGB'' (size, size) [255, 255, 255]) (\<lambda>background.
        bind_io (Image_split env resized) (\<lambda>bands.
        bind_io (index_last bands) (\<lambda>msk.
        Image_paste env background resized msk)))) (\<lambda>resized.
     bind_io (return_io (os_path_join dest_dir filename)) (\<lambda>output_path.
     bind_io (Image_save_on host env resized output_path ''PNG'') (\<lambda>_.
     print_on host (Saved output_path)))))))"

definition try_body_always_composite :: "host \<Rightarrow> env \<Rightarrow> unit io" where
  "try_body_always_composite host env =
     bind_io (Image_open_on host env source_path) (\<lambda>source_img.
     bind_io (Image_convert env source_img ''RGBA'') (\<lambda>source_img.
     bind_io (print_on host (Loaded (size_wh source_img))) (\<lambda>_.
     bind_io (for_each icon_sizes (icon_iteration_always_composite host env source_img)) (\<lambda>_.
     bind_io (return_io (os_path_join dest_dir ''Contents.json'')) (\<lambda>contents_path.
     bind_io (write_contents_on host env contents_path) (\<lambda>_.
     bind_io (print_on host (GeneratedContents contents_path)) (\<lambda>_.
     print_on host Complete)))))))"

definition generate_always_composite :: "host \<Rightarrow> env \<Rightarrow> bool io" where
  "generate_always_composite host env =
     bind_io (os_makedirs_on host env dest_dir) (\<lambda>_.
     bind_io (print_on host (Loading source_path)) (\<lambda>_.
     bind_io
       (try_except
          (bind_io (try_body_always_composite host env) (\<lambda>_. return_io None))
          (\<lambda>e. bind_io (print_on host (Error e)) (\<lambda>_. return_io (Some False)))) (\<lambda>returned.
     case returned of Some b \<Rightarrow> return_io b | None \<Rightarrow> return_io True)))"

section \<open>Properties\<close>

subsection \<open>The calls on the plain host\<close>

lemma names_plain: "names plain_host p = p"
  by (simp add: plain_host_def)

lemma console_plain: "console plain_host m = None"
  by (simp add: plain_host_def)

lemma print_plain: "print m = (\<lambda>w. (Inr (), w\<lparr>stdout := stdout w @ [m]\<rparr>))"
  unfolding print_def print_on_def names_plain console_plain by simp

lemma os_makedirs_plain:
  "os_makedirs env p =
     bind_io (refused env (Call_makedirs p)) (\<lambda>_ w.
       case find (\<lambda>d. files w d \<noteq> None) (dir_chain p) of
         Some d \<Rightarrow> (Inl (if d = p then FileExistsError p else NotADirectoryError), w)
       | None \<Rightarrow> (Inr (), w\<lparr>dirs := dirs w \<union> set (dir_chain p)\<rparr>))"
  unfolding os_makedirs_def os_makedirs_on_def names_plain console_plain by simp

lemma open_w_plain:
  "open_w env p =
     bind_io (refused env (Call_open_w p)) (\<lambda>_ w.
       (Inr p, w\<lparr>files := (files w)(p \<mapsto> Text [])\<rparr>))"
  unfolding open_w_def open_w_on_def names_plain console_plain by simp

lemma json_dump_plain:
  "json_dump env v f n = (\<lambda>w.
     case fault env (Call_json_dump f) of
       Some e \<Rightarrow> (Inl e, w\<lparr>files := (files w)(f \<mapsto> Torn)\<rparr>)
     | None \<Rightarrow> (Inr (), w\<lparr>files := (files w)(f \<mapsto> JsonText v n), written := written w @ [f]\<rparr>))"
  unfolding json_dump_def json_dump_on_def names_plain console_plain by simp

lemma Image_open_plain:
  "Image_open env p =
     bind_io (refused env (Call_Image_open p)) (\<lambda>_ w.
       case files w p of
         None \<Rightarrow> (Inl (FileNotFoundError p), w)
       | Some (ImageFile fmt im) \<Rightarrow> (Inr im, w)
       | Some _ \<Rightarrow> (Inl (UnidentifiedImageError p), w))"
  unfolding Image_open_def Image_open_on_def names_plain console_plain by simp

lemma Image_save_plain:
  "Image_save env im p fmt =
     bind_io (refused env (Call_save_open p)) (\<lambda>_ w.
       case fault env (Call_save_encode p) of
         Some e \<Rightarrow>
           (Inl e, w\<lparr>files := (files w)(p := (case files w p of None \<Rightarrow> None | Some _ \<Rightarrow> Some Torn))\<rparr>)
       | None \<Rightarrow>
           (Inr (), w\<lparr>files := (files w)(p \<mapsto> ImageFile fmt im), written := written w @ [p]\<rparr>))"
  unfolding Image_save_def Image_save_on_def names_plain console_plain by simp

lemma icon_iteration_plain:
  "icon_iteration env source_img = (\<lambda>(size, filename).
     bind_io (print (Generating size filename)) (\<lambda>_.
     bind_io (Image_resize env source_img (size, size) LANCZOS) (\<lambda>resized.
     bind_io
       (if mode resized = ''RGBA'' then
          bind_io (Image_new env ''RGB'' (size, size) [255, 255, 255]) (\<lambda>background.
          bind_io (Image_split env resized) (\<lambda>bands.
          bind_io (index_last bands) (\<lambda>msk.
          Image_paste env background resized msk)))
        else return_io resized) (\<lambda>resized.
     bind_io (return_io (os_path_join dest_dir filename)) (\<lambda>output_path.
     bind_io (Image_save env resized output_path ''PNG'') (\<lambda>_.
     print (Saved output_path)))))))"
  by (simp add: icon_iteration_def icon_iteration_on_def print_def Image_save_def)

lemma write_contents_plain:
  "write_contents env p =
     bind_io (open_w env p) (\<lambda>f. json_dump env contents_json f 2)"
  by (simp add: write_contents_def write_contents_on_def open_w_def json_dump_def)

lemma try_body_plain:
  "try_body env =
     bind_io (Image_open env source_path) (\<lambda>source_img.
     bind_io (Image_convert env source_img ''RGBA'') (\<lambda>source_img.
     bind_io (print (Loaded (size_wh source_img))) (\<lambda>_.
     bind_io (for_each icon_sizes (icon_iteration env source_img)) (\<lambda>_.
     bind_io (return_io (os_path_join dest_dir ''Contents.json'')) (\<lambda>contents_path.
     bind_io (write_contents env contents_path) (\<lambda>_.
     bind_io (print (GeneratedContents contents_path)) (\<lambda>_.
     print Complete)))))))"
  by (simp add: try_body_def try_body_on_def Image_open_def print_def icon_iteration_def
      write_contents_def)

lemma generate_app_icons_plain:
  "generate_app_icons env =
     bind_io (os_makedirs env dest_dir) (\<lambda>_.
     bind_io (print (Loading source_path)) (\<lambda>_.
     bind_io
       (try_except
          (bind_io (try_body env) (\<lambda>_. return_io None))
          (\<lambda>e. bind_io (print (Error e)) (\<lambda>_. return_io (Some False)))) (\<lambda>returned.
     case returned of Some b \<Rightarrow> return_io b | None \<Rightarrow> return_io True)))"
  by (simp add: generate_app_icons_def generate_app_icons_on_def os_makedirs_def print_def
      try_body_def)

subsection \<open>Paths\<close>

lemma join_dest_dir: "take 1 f \<noteq> ''/'' \<Longrightarrow> os_path_join dest_dir f = dest_dir @ ''/'' @ f"
  by (simp add: os_path_join_def dest_dir_def)

lemma output_paths_eq:
  "output_paths = map (\<lambda>f. dest_dir @ ''/'' @ f)
     [''Icon-20.png'', ''Icon-29.png'', ''Icon-40.png'', ''Icon-58.png'', ''Icon-60.png'',
      ''Icon-76.png'', ''Icon-80.png'', ''Icon-87.png'', ''Icon-120.png'', ''Icon-152.png'',
      ''Icon-167.png'', ''Icon-180.png'', ''Icon-1024.png'', ''Contents.json'']"
  by (simp add: output_paths_def output_path_def contents_path_def icon_sizes_def join_dest_dir)

lemma distinct_output_paths: "distinct output_paths"
  unfolding output_paths_eq by (simp add: distinct_map inj_on_def)

lemma source_not_output: "source_path \<notin> set output_paths"
  unfolding output_paths_eq by (simp add: source_path_def dest_dir_def)

lemma dir_chain_self: "p \<noteq> [] \<Longrightarrow> p \<in> set (dir_chain p)"
proof -
  assume "p \<noteq> []"
  then have "length p \<in> set (filter (\<lambda>n. n = length p \<or> p ! n = CHR ''/'') [1..<Suc (length p)])"
    by (cases p) auto
  then have "take (length p) p \<in> set (dir_chain p)"
    unfolding dir_chain_def by (simp only: set_map image_eqI)
  then show ?thesis by simp
qed

lemma dir_chain_take: "d \<in> set (dir_chain p) \<Longrightarrow> \<exists>n. d = take n p"
  by (auto simp: dir_chain_def)

lemma source_not_dir: "source_path \<notin> set (dir_chain dest_dir)"
proof
  assume "source_path \<in> set (dir_chain dest_dir)"
  then obtain n where n: "source_path = take n dest_dir"
    using dir_chain_take by blast
  then have "length source_path \<le> n"
    by (metis length_take min.cobounded2)
  moreover have "33 < length source_path"
    by (simp add: source_path_def)
  ultimately have "take n dest_dir ! 33 = dest_dir ! 33"
    by simp
  with n have "source_path ! 33 = dest_dir ! 33"
    by simp
  then show False
    by (simp add: source_path_def dest_dir_def)
qed

subsection \<open>The blend\<close>

lemma DIV255_mult:
  assumes "n < 256"
  shows "DIV255 (n * 255) = n"
proof -
  have a: "(n * 255 + 128) div 256 = (if n \<le> 128 then n else n - 1)"
    using assms by (intro div_nat_eqI) auto
  have "((if n \<le> 128 then n else n - 1) + (n * 255 + 128)) div 256 = n"
    using assms by (intro div_nat_eqI) auto
  with a show ?thesis
    by (simp add: DIV255_def Let_def)
qed

lemma unat_byte: "unat (x :: byte) < 256"
  using unsigned_less[of x] by simp

lemma BLEND8_opaque: "BLEND8 255 x y = y"
  by (simp add: BLEND8_def DIV255_mult unat_byte)

lemma BLEND8_transparent: "BLEND8 0 x y = x"
  by (simp add: BLEND8_def DIV255_mult unat_byte)

subsection \<open>One iteration\<close>

lemma bind_io_apply:
  "bind_io m f w = (case m w of (Inl e, w') \<Rightarrow> (Inl e, w') | (Inr x, w') \<Rightarrow> f x w')"
  by (simp add: bind_io_def)

lemma split_image_RGBA: "mode im = ''RGBA'' \<Longrightarrow> split_image im \<noteq> []"
  by (simp add: split_image_def getbands_def)

lemma size_last_split: "split_image im \<noteq> [] \<Longrightarrow> size_wh (last (split_image im)) = size_wh im"
  by (simp add: split_image_def last_map)

lemma icon_iteration_Inr:
  assumes "icon_iteration env src (s, fn) w = (Inr u, w')"
  shows "w' = w\<lparr>stdout := stdout w @ [Generating s fn, Saved (output_path (s, fn))],
               files := (files w)(output_path (s, fn) \<mapsto> ImageFile ''PNG'' (icon_image env src s)),
               written := written w @ [output_path (s, fn)]\<rparr>"
  using assms split_image_RGBA[of "resize_image env src (s, s) LANCZOS"]
     size_last_split[of "resize_image env src (s, s) LANCZOS"]
  by (auto simp: icon_iteration_plain bind_io_apply print_plain Image_resize_def refused_def
      return_io_def raise_io_def Image_new_def Image_split_def index_last_def Image_paste_def
      Image_save_plain icon_image_def Let_def resize_image_def new_image_def output_path_def
      split: option.splits if_splits)

lemma icon_iteration_Inl:
  assumes "icon_iteration env src (s, fn) w = (Inl e, w')"
  shows "written w' = written w \<and> dirs w' = dirs w \<and>
         (\<forall>p. p \<noteq> output_path (s, fn) \<longrightarrow> files w' p = files w p)"
  using assms
  by (auto simp: icon_iteration_plain bind_io_apply print_plain Image_resize_def refused_def
      return_io_def raise_io_def Image_new_def Image_split_def index_last_def Image_paste_def
      Image_save_plain output_path_def
      split: option.splits if_splits)



subsection \<open>The loop\<close>

lemma for_each_append:
  "for_each (xs @ ys) body w =
     (case for_each xs body w of (Inl e, w') \<Rightarrow> (Inl e, w') | (Inr u, w') \<Rightarrow> for_each ys body w')"
  by (induction xs arbitrary: w) (auto simp: bind_io_apply return_io_def split: prod.splits sum.splits)

lemma find_snoc:
  "find P (xs @ [x]) = (case find P xs of Some y \<Rightarrow> Some y | None \<Rightarrow> if P x then Some x else None)"
  by (induction xs) auto

lemma find_SomeD: "find P xs = Some y \<Longrightarrow> y \<in> set xs \<and> P y"
  by (induction xs) (auto split: if_splits)

lemma find_rev_distinct:
  assumes "distinct (map f xs)" and "x \<in> set xs"
  shows "find (\<lambda>y. f y = f x) (rev xs) = Some x"
proof (cases "find (\<lambda>y. f y = f x) (rev xs)")
  case None
  with assms(2) show ?thesis by (auto simp: find_None_iff)
next
  case (Some y)
  then have "y \<in> set xs" and "f y = f x"
    using find_SomeD[of "\<lambda>y. f y = f x" "rev xs" y] by auto
  with assms have "y = x"
    by (meson distinct_map inj_onD)
  with Some show ?thesis by simp
qed

lemma find_None_notin: "p \<notin> f ` set xs \<Longrightarrow> find (\<lambda>y. f y = p) (rev xs) = None"
  by (auto simp: find_None_iff)

lemma loop_Inr:
  assumes "for_each xs (icon_iteration env src) w = (Inr u, w')"
  shows "written w' = written w @ map output_path xs \<and> dirs w' = dirs w \<and>
         files w' = (\<lambda>p. case find (\<lambda>spec. output_path spec = p) (rev xs) of
                          Some spec \<Rightarrow> Some (ImageFile ''PNG'' (icon_image env src (fst spec)))
                        | None \<Rightarrow> files w p)"
  using assms
proof (induction xs arbitrary: w)
  case Nil
  then show ?case by (simp add: return_io_def)
next
  case (Cons x xs)
  obtain s fn where x: "x = (s, fn)" by (cases x)
  from Cons.prems obtain w1 where 1: "icon_iteration env src (s, fn) w = (Inr (), w1)"
    and 2: "for_each xs (icon_iteration env src) w1 = (Inr u, w')"
    by (auto simp: x bind_io_apply split: prod.splits sum.splits)
  note a = icon_iteration_Inr[OF 1] 
  note b = Cons.IH[OF 2]
  have "written w' = written w @ map output_path (x # xs)" using a b x by simp
  moreover have "dirs w' = dirs w" using a b by simp
  moreover have "files w' = (\<lambda>p. case find (\<lambda>spec. output_path spec = p) (rev (x # xs)) of
                          Some spec \<Rightarrow> Some (ImageFile ''PNG'' (icon_image env src (fst spec)))
                        | None \<Rightarrow> files w p)"
    using a b x by (auto simp: find_snoc fun_eq_iff split: option.splits)
  ultimately show ?case by blast
qed

lemma loop_Inl:
  assumes "for_each xs (icon_iteration env src) w = (Inl e, w')"
  shows "\<exists>k wk. k < length xs \<and> for_each (take k xs) (icon_iteration env src) w = (Inr (), wk) \<and>
           icon_iteration env src (xs ! k) wk = (Inl e, w')"
  using assms
proof (induction xs arbitrary: w)
  case Nil
  then show ?case by (simp add: return_io_def)
next
  case (Cons x xs)
  show ?case
  proof (cases "icon_iteration env src x w")
    case (Pair r w1)
    show ?thesis
    proof (cases r)
      case (Inl e1)
      with Pair Cons.prems have "icon_iteration env src ((x # xs) ! 0) w = (Inl e, w')"
        by (simp add: bind_io_apply)
      moreover have "for_each (take 0 (x # xs)) (icon_iteration env src) w = (Inr (), w)"
        by (simp add: return_io_def)
      ultimately show ?thesis by (intro exI[of _ 0] exI[of _ w]) simp
    next
      case (Inr u1)
      with Pair Cons.prems have "for_each xs (icon_iteration env src) w1 = (Inl e, w')"
        by (simp add: bind_io_apply)
      from Cons.IH[OF this] obtain k wk where k: "k < length xs"
        "for_each (take k xs) (icon_iteration env src) w1 = (Inr (), wk)"
        "icon_iteration env src (xs ! k) wk = (Inl e, w')" by blast
      then have "for_each (take (Suc k) (x # xs)) (icon_iteration env src) w = (Inr (), wk)"
        using Pair Inr by (simp add: bind_io_apply)
      with k show ?thesis by (intro exI[of _ "Suc k"] exI[of _ wk]) simp
    qed
  qed
qed

lemma loop_abort:
  assumes "k < length xs"
    and "for_each (take k xs) body w = (Inr u, wk)"
    and "body (xs ! k) wk = (Inl e, w')"
  shows "for_each xs body w = (Inl e, w')"
proof -
  have "xs = take k xs @ (xs ! k) # drop (Suc k) xs"
    using assms(1) by (simp add: id_take_nth_drop)
  then have "for_each xs body w = for_each (take k xs @ (xs ! k) # drop (Suc k) xs) body w"
    by simp
  also have "\<dots> = (Inl e, w')"
    using assms(2,3) by (simp only: for_each_append) (simp add: bind_io_apply)
  finally show ?thesis .
qed

subsection \<open>The calls around the loop\<close>

lemma os_makedirs_Inr:
  "os_makedirs env p w = (Inr u, w') \<Longrightarrow> w' = w\<lparr>dirs := dirs w \<union> set (dir_chain p)\<rparr>"
  by (auto simp: os_makedirs_plain bind_io_apply refused_def raise_io_def return_io_def
      split: option.splits)

lemma os_makedirs_Inl: "os_makedirs env p w = (Inl e, w') \<Longrightarrow> w' = w"
  by (auto simp: os_makedirs_plain bind_io_apply refused_def raise_io_def return_io_def
      split: option.splits)

lemma Image_open_Inr:
  "Image_open env p w = (Inr im, w') \<Longrightarrow> w' = w \<and> (\<exists>fmt. files w p = Some (ImageFile fmt im))"
  by (auto simp: Image_open_plain bind_io_apply refused_def raise_io_def return_io_def
      split: option.splits content.splits)

lemma Image_open_Inl: "Image_open env p w = (Inl e, w') \<Longrightarrow> w' = w"
  by (auto simp: Image_open_plain bind_io_apply refused_def raise_io_def return_io_def
      split: option.splits content.splits)

lemma Image_convert_Inr:
  "Image_convert env im m w = (Inr im', w') \<Longrightarrow> w' = w \<and> im' = convert_image env im m"
  by (auto simp: Image_convert_def bind_io_apply refused_def raise_io_def return_io_def
      split: option.splits)

lemma Image_convert_Inl: "Image_convert env im m w = (Inl e, w') \<Longrightarrow> w' = w"
  by (auto simp: Image_convert_def bind_io_apply refused_def raise_io_def return_io_def
      split: option.splits)

lemma write_contents_Inr:
  "write_contents env p w = (Inr u, w') \<Longrightarrow>
     w' = w\<lparr>files := (files w)(p \<mapsto> JsonText contents_json 2), written := written w @ [p]\<rparr>"
  by (auto simp: write_contents_plain open_w_plain json_dump_plain bind_io_apply refused_def raise_io_def
      return_io_def split: option.splits)

lemma write_contents_Inl:
  "write_contents env p w = (Inl e, w') \<Longrightarrow>
     written w' = written w \<and> dirs w' = dirs w \<and> (\<forall>q. q \<noteq> p \<longrightarrow> files w' q = files w q)"
  by (auto simp: write_contents_plain open_w_plain json_dump_plain bind_io_apply refused_def raise_io_def
      return_io_def split: option.splits)

lemma generate_unfold:
  "generate_app_icons env w =
     (case os_makedirs env dest_dir w of
        (Inl e, w1) \<Rightarrow> (Inl e, w1)
      | (Inr u, w1) \<Rightarrow>
          (case try_body env (w1\<lparr>stdout := stdout w1 @ [Loading source_path]\<rparr>) of
             (Inl e, w3) \<Rightarrow> (Inr False, w3\<lparr>stdout := stdout w3 @ [Error e]\<rparr>)
           | (Inr u, w3) \<Rightarrow> (Inr True, w3)))"
  by (simp add: generate_app_icons_plain bind_io_apply try_except_def print_plain return_io_def
      split: prod.splits sum.splits)

lemma try_body_unfold:
  "try_body env w =
     (case Image_open env source_path w of
        (Inl e, w1) \<Rightarrow> (Inl e, w1)
      | (Inr im, w1) \<Rightarrow>
     (case Image_convert env im ''RGBA'' w1 of
        (Inl e, w2) \<Rightarrow> (Inl e, w2)
      | (Inr src, w2) \<Rightarrow>
     (case for_each icon_sizes (icon_iteration env src) (w2\<lparr>stdout := stdout w2 @ [Loaded (size_wh src)]\<rparr>) of
        (Inl e, w3) \<Rightarrow> (Inl e, w3)
      | (Inr u, w3) \<Rightarrow>
     (case write_contents env contents_path w3 of
        (Inl e, w4) \<Rightarrow> (Inl e, w4)
      | (Inr u, w4) \<Rightarrow>
          (Inr (), w4\<lparr>stdout := stdout w4 @ [GeneratedContents contents_path, Complete]\<rparr>)))))"
  by (simp add: try_body_plain bind_io_apply print_plain return_io_def contents_path_def
      split: prod.splits sum.splits)

lemma loop_Inl_effect:
  assumes "for_each xs (icon_iteration env src) w = (Inl e, w')"
  shows "\<exists>k<length xs. written w' = written w @ map output_path (take k xs) \<and> dirs w' = dirs w \<and>
           (\<forall>p. p \<notin> output_path ` set xs \<longrightarrow> files w' p = files w p)"
proof -
  from loop_Inl[OF assms] obtain k wk where k: "k < length xs"
    and pre: "for_each (take k xs) (icon_iteration env src) w = (Inr (), wk)"
    and it: "icon_iteration env src (xs ! k) wk = (Inl e, w')" by blast
  note a = loop_Inr[OF pre]
  obtain s fn where x: "xs ! k = (s, fn)" by (cases "xs ! k")
  note b = icon_iteration_Inl[OF it[unfolded x]]
  have "\<forall>p. p \<notin> output_path ` set xs \<longrightarrow> files w' p = files w p"
  proof (intro allI impI)
    fix p assume p: "p \<notin> output_path ` set xs"
    then have "p \<noteq> output_path (s, fn)" using k x by (metis image_eqI nth_mem)
    moreover have "p \<notin> output_path ` set (take k xs)" using p by (auto dest: in_set_takeD)
    ultimately show "files w' p = files w p"
      using a b by (simp add: find_None_notin)
  qed
  with a b k show ?thesis by auto
qed

subsection \<open>A run that returns True\<close>

lemma contents_not_icon: "contents_path \<notin> output_path ` set icon_sizes"
  using distinct_output_paths by (simp add: output_paths_def)

lemma outputs_split: "set output_paths = insert contents_path (output_path ` set icon_sizes)"
  by (simp add: output_paths_def)

lemma bind_io_InrD:
  "bind_io m f w = (Inr y, w') \<Longrightarrow> \<exists>x w1. m w = (Inr x, w1) \<and> f x w1 = (Inr y, w')"
  by (auto simp: bind_io_apply split: prod.splits sum.splits)

lemma bind_return: "bind_io (return_io x) f = f x"
  by (simp add: bind_io_def return_io_def)

lemma bind_print: "bind_io (print m) f w = f () (w\<lparr>stdout := stdout w @ [m]\<rparr>)"
  by (simp add: bind_io_def print_plain)

lemma try_body_Inr:
  assumes "try_body env w = (Inr u, w')"
  shows "\<exists>fmt im w3 w4. files w source_path = Some (ImageFile fmt im) \<and>
           for_each icon_sizes (icon_iteration env (convert_image env im ''RGBA''))
             (w\<lparr>stdout := stdout w @ [Loaded (size_wh im)]\<rparr>) = (Inr (), w3) \<and>
           write_contents env contents_path w3 = (Inr (), w4) \<and>
           w' = w4\<lparr>stdout := stdout w4 @ [GeneratedContents contents_path, Complete]\<rparr>"
proof -
  from assms obtain im w1 where 1: "Image_open env source_path w = (Inr im, w1)"
    and r1: "bind_io (Image_convert env im ''RGBA'') (\<lambda>source_img.
     bind_io (print (Loaded (size_wh source_img))) (\<lambda>_.
     bind_io (for_each icon_sizes (icon_iteration env source_img)) (\<lambda>_.
     bind_io (return_io (os_path_join dest_dir ''Contents.json'')) (\<lambda>contents_path.
     bind_io (write_contents env contents_path) (\<lambda>_.
     bind_io (print (GeneratedContents contents_path)) (\<lambda>_.
     print Complete)))))) w1 = (Inr u, w')"
    unfolding try_body_plain by (blast dest: bind_io_InrD)
  from bind_io_InrD[OF r1] obtain src w2 where 2: "Image_convert env im ''RGBA'' w1 = (Inr src, w2)"
    and r2: "bind_io (print (Loaded (size_wh src))) (\<lambda>_.
     bind_io (for_each icon_sizes (icon_iteration env src)) (\<lambda>_.
     bind_io (return_io (os_path_join dest_dir ''Contents.json'')) (\<lambda>contents_path.
     bind_io (write_contents env contents_path) (\<lambda>_.
     bind_io (print (GeneratedContents contents_path)) (\<lambda>_.
     print Complete))))) w2 = (Inr u, w')"
    by blast
  have w1: "w1 = w" and w2: "w2 = w" and src: "src = convert_image env im ''RGBA''"
    using Image_open_Inr[OF 1] Image_convert_Inr[OF 2] by auto
  from Image_open_Inr[OF 1] obtain fmt where f: "files w source_path = Some (ImageFile fmt im)"
    by blast
  from r2 have r3: "bind_io (for_each icon_sizes (icon_iteration env src)) (\<lambda>_.
     bind_io (write_contents env contents_path) (\<lambda>_.
     bind_io (print (GeneratedContents contents_path)) (\<lambda>_.
     print Complete))) (w\<lparr>stdout := stdout w @ [Loaded (size_wh src)]\<rparr>) = (Inr u, w')"
    by (simp add: bind_return bind_print w2 contents_path_def)
  from bind_io_InrD[OF r3] obtain u3 w3 where 3: "for_each icon_sizes (icon_iteration env src)
       (w\<lparr>stdout := stdout w @ [Loaded (size_wh src)]\<rparr>) = (Inr u3, w3)"
    and r4: "bind_io (write_contents env contents_path) (\<lambda>_.
     bind_io (print (GeneratedContents contents_path)) (\<lambda>_.
     print Complete)) w3 = (Inr u, w')"
    by blast
  from bind_io_InrD[OF r4] obtain u4 w4 where 4: "write_contents env contents_path w3 = (Inr u4, w4)"
    and r5: "bind_io (print (GeneratedContents contents_path)) (\<lambda>_. print Complete) w4 = (Inr u, w')"
    by blast
  from r5 have "w' = w4\<lparr>stdout := stdout w4 @ [GeneratedContents contents_path, Complete]\<rparr>"
    by (auto simp: bind_io_apply print_plain)
  with f 3 4 src show ?thesis
    by (auto simp: convert_image_def)
qed

lemma run_ok:
  assumes "generate_app_icons env w = (Inr True, w')"
  shows "\<exists>fmt src0. files w source_path = Some (ImageFile fmt src0) \<and>
           files w' = (\<lambda>p. if p = contents_path then Some (JsonText contents_json 2)
                           else case find (\<lambda>spec. output_path spec = p) (rev icon_sizes) of
                              Some spec \<Rightarrow> Some (ImageFile ''PNG''
                                 (icon_image env (convert_image env src0 ''RGBA'') (fst spec)))
                            | None \<Rightarrow> files w p) \<and>
           written w' = written w @ output_paths \<and>
           dirs w' = dirs w \<union> set (dir_chain dest_dir)"
proof -
  from assms obtain u w1 where mk: "os_makedirs env dest_dir w = (Inr u, w1)"
    and tb: "\<exists>u. try_body env (w1\<lparr>stdout := stdout w1 @ [Loading source_path]\<rparr>) = (Inr u, w')"
    by (auto simp: generate_unfold split: prod.splits sum.splits)
  let ?w2 = "w1\<lparr>stdout := stdout w1 @ [Loading source_path]\<rparr>"
  from tb try_body_Inr[of env ?w2 _ w'] obtain fmt im w3 w4 where
    f: "files ?w2 source_path = Some (ImageFile fmt im)"
    and lp: "for_each icon_sizes (icon_iteration env (convert_image env im ''RGBA''))
              (?w2\<lparr>stdout := stdout ?w2 @ [Loaded (size_wh im)]\<rparr>) = (Inr (), w3)"
    and wc: "write_contents env contents_path w3 = (Inr (), w4)"
    and w': "w' = w4\<lparr>stdout := stdout w4 @ [GeneratedContents contents_path, Complete]\<rparr>"
    by blast
  note a = os_makedirs_Inr[OF mk]
  note b = loop_Inr[OF lp]
  note c = write_contents_Inr[OF wc]
  have "files w source_path = Some (ImageFile fmt im)" using f a by simp
  moreover have "written w' = written w @ output_paths"
    using a b c w' by (simp add: output_paths_def)
  moreover have "dirs w' = dirs w \<union> set (dir_chain dest_dir)"
    using a b c w' by simp
  moreover have "files w' = (\<lambda>p. if p = contents_path then Some (JsonText contents_json 2)
                           else case find (\<lambda>spec. output_path spec = p) (rev icon_sizes) of
                              Some spec \<Rightarrow> Some (ImageFile ''PNG''
                                 (icon_image env (convert_image env im ''RGBA'') (fst spec)))
                            | None \<Rightarrow> files w p)"
    using a b c w' by (auto simp: fun_eq_iff split: option.splits)
  ultimately show ?thesis by blast
qed

subsection \<open>The effect of any run\<close>

lemma take_output_paths:
  "k \<le> length icon_sizes \<Longrightarrow> take k output_paths = map output_path (take k icon_sizes)"
  by (simp add: output_paths_def take_map)

lemma length_output_paths: "length output_paths = Suc (length icon_sizes)"
  by (simp add: output_paths_def)

lemma try_body_effect:
  assumes "try_body env w = (r, w')"
  shows "dirs w' = dirs w \<and> (\<forall>p. p \<notin> set output_paths \<longrightarrow> files w' p = files w p) \<and>
         (\<exists>k\<le>length output_paths. written w' = written w @ take k output_paths \<and>
             ((\<exists>u. r = Inr u) \<longleftrightarrow> k = length output_paths))"
proof -
  let ?goal = "dirs w' = dirs w \<and> (\<forall>p. p \<notin> set output_paths \<longrightarrow> files w' p = files w p) \<and>
         (\<exists>k\<le>length output_paths. written w' = written w @ take k output_paths \<and>
             ((\<exists>u. r = Inr u) \<longleftrightarrow> k = length output_paths))"
  have untouched: ?goal if "w' = w" and "\<exists>e. r = Inl e"
    using that by (auto intro!: exI[of _ 0] simp: length_output_paths)
  obtain r1 w1 where 1: "Image_open env source_path w = (r1, w1)"
    by (cases "Image_open env source_path w")
  show ?thesis
  proof (cases r1)
    case (Inl e)
    with 1 assms Image_open_Inl[of env source_path w e w1] have "w' = w" "\<exists>e. r = Inl e"
      by (auto simp: try_body_unfold)
    then show ?thesis by (rule untouched)
  next
    case im: (Inr im)
    with 1 Image_open_Inr[of env source_path w im w1] have w1: "w1 = w" by simp
    obtain r2 w2 where 2: "Image_convert env im ''RGBA'' w = (r2, w2)"
      by (cases "Image_convert env im ''RGBA'' w")
    show ?thesis
    proof (cases r2)
      case (Inl e)
      with 1 2 im w1 assms Image_convert_Inl[of env im "''RGBA''" w e w2]
      have "w' = w" "\<exists>e. r = Inl e"
        by (auto simp: try_body_unfold)
      then show ?thesis by (rule untouched)
    next
      case src: (Inr src)
      with 2 Image_convert_Inr[of env im "''RGBA''" w src w2] have w2: "w2 = w" by simp
      let ?w = "w\<lparr>stdout := stdout w @ [Loaded (size_wh src)]\<rparr>"
      obtain r3 w3 where 3: "for_each icon_sizes (icon_iteration env src) ?w = (r3, w3)"
        by (cases "for_each icon_sizes (icon_iteration env src) ?w")
      show ?thesis
      proof (cases r3)
        case (Inl e)
        with 1 2 3 im src w1 w2 assms have r: "r = Inl e" "w' = w3"
          by (auto simp: try_body_unfold)
        from loop_Inl_effect[OF 3[unfolded Inl]] obtain k where k: "k < length icon_sizes"
          "written w3 = written w @ map output_path (take k icon_sizes)" "dirs w3 = dirs w"
          "\<forall>p. p \<notin> output_path ` set icon_sizes \<longrightarrow> files w3 p = files w p"
          by auto
        then show ?thesis
          using r by (auto intro!: exI[of _ k] simp: take_output_paths length_output_paths outputs_split)
      next
        case u3: (Inr u3)
        note a = loop_Inr[OF 3[unfolded u3]]
        have fr3: "\<forall>p. p \<notin> set output_paths \<longrightarrow> files w3 p = files w p"
          using a by (simp add: outputs_split find_None_notin)
        obtain r4 w4 where 4: "write_contents env contents_path w3 = (r4, w4)"
          by (cases "write_contents env contents_path w3")
        show ?thesis
        proof (cases r4)
          case (Inl e)
          with 1 2 3 4 im src u3 w1 w2 assms have r: "r = Inl e" "w' = w4"
            by (auto simp: try_body_unfold)
          note b = write_contents_Inl[OF 4[unfolded Inl]]
          have "written w' = written w @ take (length icon_sizes) output_paths"
            using a b r by (simp add: take_output_paths)
          moreover have "\<forall>p. p \<notin> set output_paths \<longrightarrow> files w' p = files w p"
            using fr3 b r by (simp add: outputs_split)
          moreover have "dirs w' = dirs w" using a b r by simp
          ultimately show ?thesis
            using r by (auto intro!: exI[of _ "length icon_sizes"] simp: length_output_paths)
        next
          case u4: (Inr u4)
          with 1 2 3 4 im src u3 w1 w2 assms have r: "r = Inr ()"
            "w' = w4\<lparr>stdout := stdout w4 @ [GeneratedContents contents_path, Complete]\<rparr>"
            by (auto simp: try_body_unfold)
          note b = write_contents_Inr[OF 4[unfolded u4]]
          have "written w' = written w @ take (length output_paths) output_paths"
            using a b r by (simp add: output_paths_def)
          moreover have "\<forall>p. p \<notin> set output_paths \<longrightarrow> files w' p = files w p"
            using fr3 b r by (simp add: outputs_split)
          moreover have "dirs w' = dirs w" using a b r by simp
          ultimately show ?thesis
            using r by (auto intro!: exI[of _ "length output_paths"])
        qed
      qed
    qed
  qed
qed

lemma run_effect:
  assumes "generate_app_icons env w = (r, w')"
  shows "(\<forall>p. p \<notin> set output_paths \<longrightarrow> files w' p = files w p) \<and>
         (\<exists>k\<le>length output_paths. written w' = written w @ take k output_paths \<and>
             (r = Inr True \<longleftrightarrow> k = length output_paths))"
proof -
  obtain r1 w1 where 1: "os_makedirs env dest_dir w = (r1, w1)"
    by (cases "os_makedirs env dest_dir w")
  show ?thesis
  proof (cases r1)
    case (Inl e)
    with 1 assms os_makedirs_Inl[of env dest_dir w e w1] have "w' = w" "r = Inl e"
      by (auto simp: generate_unfold)
    then show ?thesis by (auto intro!: exI[of _ 0] simp: length_output_paths)
  next
    case (Inr u)
    let ?w2 = "w1\<lparr>stdout := stdout w1 @ [Loading source_path]\<rparr>"
    note a = os_makedirs_Inr[OF 1[unfolded Inr]]
    obtain r2 w3 where tb: "try_body env ?w2 = (r2, w3)" by (cases "try_body env ?w2")
    note b = try_body_effect[OF tb]
    from b obtain k where k: "k \<le> length output_paths" "written w3 = written ?w2 @ take k output_paths"
      "(\<exists>u. r2 = Inr u) \<longleftrightarrow> k = length output_paths" by blast
    have c: "files w' = files w3 \<and> written w' = written w3 \<and> (r = Inr True \<longleftrightarrow> (\<exists>u. r2 = Inr u))"
      using assms 1 Inr tb by (cases r2) (auto simp: generate_unfold)
    have "\<forall>p. p \<notin> set output_paths \<longrightarrow> files w' p = files w p"
      using a b c by simp
    moreover have "written w' = written w @ take k output_paths"
      using a c k by simp
    ultimately show ?thesis using k c by blast
  qed
qed

subsection \<open>A run in which no call is refused\<close>

lemma icon_iteration_succeeds:
  assumes "fault env = no_faults"
  shows "\<exists>w'. icon_iteration env src spec w = (Inr (), w')"
proof -
  obtain s fn where "spec = (s, fn)" by (cases spec)
  then show ?thesis
    using assms split_image_RGBA[of "resize_image env src (s, s) LANCZOS"]
      size_last_split[of "resize_image env src (s, s) LANCZOS"]
    by (auto simp: icon_iteration_plain bind_io_apply print_plain Image_resize_def refused_def
      return_io_def raise_io_def Image_new_def Image_split_def index_last_def Image_paste_def
      Image_save_plain resize_image_def new_image_def no_faults_def)
qed

lemma loop_succeeds:
  assumes "fault env = no_faults"
  shows "\<exists>w'. for_each xs (icon_iteration env src) w = (Inr (), w')"
proof (induction xs arbitrary: w)
  case Nil
  then show ?case by (simp add: return_io_def)
next
  case (Cons x xs)
  from icon_iteration_succeeds[OF assms] obtain w1 where
    "icon_iteration env src x w = (Inr (), w1)" by blast
  with Cons.IH[of w1] show ?case by (auto simp: bind_io_apply)
qed

lemma find_None_all: "\<forall>x\<in>set xs. \<not> P x \<Longrightarrow> find P xs = None"
  by (simp add: find_None_iff)

lemma try_body_succeeds:
  assumes "fault env = no_faults"
    and "files w source_path = Some (ImageFile fmt im)"
  shows "\<exists>w'. try_body env w = (Inr (), w')"
proof -
  have op: "Image_open env source_path w = (Inr im, w)"
    using assms
    by (simp add: Image_open_plain bind_io_apply refused_def no_faults_def return_io_def)
  have cv: "Image_convert env im ''RGBA'' w = (Inr (convert_image env im ''RGBA''), w)"
    using assms(1)
    by (simp add: Image_convert_def bind_io_apply refused_def no_faults_def return_io_def)
  obtain w3 where lp: "for_each icon_sizes (icon_iteration env (convert_image env im ''RGBA''))
      (w\<lparr>stdout := stdout w @ [Loaded (size_wh (convert_image env im ''RGBA''))]\<rparr>) = (Inr (), w3)"
    using loop_succeeds[OF assms(1)] by blast
  have "\<exists>w4. write_contents env contents_path w3 = (Inr (), w4)"
    using assms(1)
    by (simp add: write_contents_plain open_w_plain json_dump_plain bind_io_apply refused_def
        no_faults_def return_io_def)
  then obtain w4 where wc: "write_contents env contents_path w3 = (Inr (), w4)" by blast
  show ?thesis
    by (simp add: try_body_unfold op cv lp wc)
qed

lemma run_succeeds:
  assumes "fault env = no_faults"
    and "files w source_path = Some (ImageFile fmt im)"
    and "\<forall>d\<in>set (dir_chain dest_dir). files w d = None"
  shows "\<exists>w'. generate_app_icons env w = (Inr True, w')"
proof -
  let ?w1 = "w\<lparr>dirs := dirs w \<union> set (dir_chain dest_dir)\<rparr>"
  let ?w2 = "?w1\<lparr>stdout := stdout ?w1 @ [Loading source_path]\<rparr>"
  have mk: "os_makedirs env dest_dir w = (Inr (), ?w1)"
    using assms(1,3)
    by (simp add: os_makedirs_plain bind_io_apply refused_def no_faults_def return_io_def
        find_None_all)
  have "files ?w2 source_path = Some (ImageFile fmt im)"
    using assms(2) by simp
  from try_body_succeeds[OF assms(1) this] obtain w' where "try_body env ?w2 = (Inr (), w')"
    by blast
  then have "generate_app_icons env w = (Inr True, w')"
    by (simp only: generate_unfold mk prod.case sum.case)
  then show ?thesis by blast
qed

lemma fresh_run: "\<exists>w'. generate_app_icons plain_env fresh_world = (Inr True, w')"
  using source_not_dir
  by (intro run_succeeds[where fmt="''PNG''" and im=clear_dot])
     (auto simp: plain_env_def fresh_world_def)

subsection \<open>The icon files of a run that returns True\<close>

lemma output_path_join: "output_path (edge, filename) = os_path_join dest_dir filename"
  by (simp add: output_path_def)

lemma icon_file_after_run:
  assumes "generate_app_icons env w = (Inr True, w')"
    and "(edge, filename) \<in> set icon_sizes"
  shows "\<exists>fmt src. files w source_path = Some (ImageFile fmt src) \<and>
           files w' (os_path_join dest_dir filename) =
             Some (ImageFile ''PNG'' (icon_image env (convert_image env src ''RGBA'') edge))"
proof -
  from run_ok[OF assms(1)] obtain fmt src where
    f: "files w source_path = Some (ImageFile fmt src)"
    and g: "files w' = (\<lambda>p. if p = contents_path then Some (JsonText contents_json 2)
                           else case find (\<lambda>spec. output_path spec = p) (rev icon_sizes) of
                              Some spec \<Rightarrow> Some (ImageFile ''PNG''
                                 (icon_image env (convert_image env src ''RGBA'') (fst spec)))
                            | None \<Rightarrow> files w p)"
    by blast
  have d: "distinct (map output_path icon_sizes)"
    using distinct_output_paths by (simp add: output_paths_def)
  have "output_path (edge, filename) \<noteq> contents_path"
    using contents_not_icon assms(2) by force
  moreover have "find (\<lambda>spec. output_path spec = output_path (edge, filename)) (rev icon_sizes)
      = Some (edge, filename)"
    using find_rev_distinct[OF d assms(2)] .
  ultimately have "files w' (output_path (edge, filename)) =
      Some (ImageFile ''PNG'' (icon_image env (convert_image env src ''RGBA'') edge))"
    by (simp add: g)
  with f show ?thesis by (auto simp: output_path_join)
qed


lemma manifest_images_length: "length manifest_images = 16"
  by (simp add: manifest_images_def lookup_key_def contents_json_def elements_def)

subsection \<open>The pixels of an icon\<close>

lemma last_split_RGBA:
  "mode im = ''RGBA'' \<Longrightarrow>
     last (split_image im) =
       \<lparr>mode = ''L'', size_wh = size_wh im, pixels = map (\<lambda>p. take 1 (drop 3 p)) (pixels im)\<rparr>"
  by (simp add: split_image_def getbands_def last_map numeral_3_eq_3)

lemma icon_image_RGBA:
  assumes "mode src = ''RGBA''"
  shows "icon_image env src edge =
     \<lparr>mode = ''RGB'', size_wh = (edge, edge),
      pixels = map (\<lambda>(out, p). paste_pixel out p (take 1 (drop 3 p)))
                 (zip (replicate (edge * edge) [255, 255, 255])
                      (pixels (resize_image env src (edge, edge) LANCZOS)))\<rparr>"
proof -
  let ?r = "resize_image env src (edge, edge) LANCZOS"
  have m: "mode ?r = ''RGBA''" using assms by (simp add: resize_image_def)
  have "zip (pixels ?r) (map (\<lambda>p. take 1 (drop 3 p)) (pixels ?r))
       = map (\<lambda>p. (p, take 1 (drop 3 p))) (pixels ?r)"
    by (induction "pixels ?r") (auto simp: zip_map2 zip_same_conv_map)
  then show ?thesis
    using m by (simp add: icon_image_def Let_def last_split_RGBA[OF m] paste_image_def
      new_image_def zip_map2 split_def)
qed

lemma paste_pixel_white:
  "paste_pixel [255, 255, 255] [r, g, b, a] (take 1 (drop 3 [r, g, b, a]))
     = [BLEND8 a 255 r, BLEND8 a 255 g, BLEND8 a 255 b]"
  by (simp add: paste_pixel_def)


lemma mode_convert: "mode (convert_image env im m) = m"
  by (simp add: convert_image_def)

subsection \<open>Paths that are not written\<close>

lemma dir_chain_length: "d \<in> set (dir_chain p) \<Longrightarrow> length d \<le> length p"
  using dir_chain_take[of d p] by auto

lemma output_longer: "p \<in> set output_paths \<Longrightarrow> length dest_dir < length p"
  unfolding output_paths_eq by auto

lemma output_not_dir: "p \<in> set output_paths \<Longrightarrow> p \<notin> set (dir_chain dest_dir)"
  using dir_chain_length[of p dest_dir] output_longer[of p] by auto

lemma notes_path_eq: "notes_path = dest_dir @ ''/notes.txt''"
  by (simp add: notes_path_def join_dest_dir)

lemma notes_not_output: "notes_path \<notin> set output_paths"
  unfolding output_paths_eq notes_path_eq by simp

lemma notes_not_dir: "notes_path \<notin> set (dir_chain dest_dir)"
  using dir_chain_length[of notes_path dest_dir] by (auto simp: notes_path_eq)

lemma notes_not_source: "notes_path \<noteq> source_path"
  by (simp add: notes_path_eq source_path_def dest_dir_def)

lemma used_run: "\<exists>w'. generate_app_icons plain_env used_world = (Inr True, w')"
  using source_not_dir notes_not_dir notes_not_source
  by (intro run_succeeds[where fmt="''PNG''" and im=clear_dot])
     (auto simp: plain_env_def fresh_world_def used_world_def)

subsection \<open>Running again\<close>

lemma icon_image_fault: "icon_image (env\<lparr>fault := f\<rparr>) src edge = icon_image env src edge"
  by (simp add: icon_image_def resize_image_def)

lemma convert_image_fault: "convert_image (env\<lparr>fault := f\<rparr>) im m = convert_image env im m"
  by (simp add: convert_image_def)

lemma output_cases:
  "p \<in> set output_paths \<Longrightarrow>
     p = contents_path \<or> (\<exists>spec\<in>set icon_sizes. p = output_path spec)"
  by (auto simp: output_paths_def)

lemma fresh_rerun:
  assumes "generate_app_icons plain_env fresh_world = (Inr True, w1)"
  shows "\<exists>w2. generate_app_icons plain_env w1 = (Inr True, w2)"
proof -
  note fr = run_effect[OF assms, THEN conjunct1, rule_format]
  have "files w1 source_path = Some (ImageFile ''PNG'' clear_dot)"
    using fr[OF source_not_output] by (simp add: fresh_world_def)
  moreover have "\<forall>d\<in>set (dir_chain dest_dir). files w1 d = None"
  proof
    fix d assume d: "d \<in> set (dir_chain dest_dir)"
    then have "d \<notin> set output_paths" using output_not_dir by blast
    from fr[OF this] show "files w1 d = None"
      using d source_not_dir by (auto simp: fresh_world_def)
  qed
  ultimately show ?thesis
    by (intro run_succeeds[where fmt="''PNG''" and im=clear_dot]) (auto simp: plain_env_def)
qed

subsection \<open>A failure inside the loop\<close>

lemma try_body_loop_fails:
  assumes "files v source_path = Some (ImageFile fmt im)"
    and "fault env (Call_Image_open source_path) = None"
    and "fault env (Call_convert ''RGBA'') = None"
    and "for_each icon_sizes (icon_iteration env (convert_image env im ''RGBA''))
           (v\<lparr>stdout := stdout v @ [Loaded (size_wh im)]\<rparr>) = (Inl e, v')"
  shows "try_body env v = (Inl e, v')"
proof -
  have op: "Image_open env source_path v = (Inr im, v)"
    using assms(1,2)
    by (simp add: Image_open_plain bind_io_apply refused_def return_io_def)
  have cv: "Image_convert env im ''RGBA'' v = (Inr (convert_image env im ''RGBA''), v)"
    using assms(3)
    by (simp add: Image_convert_def bind_io_apply refused_def return_io_def)
  have sz: "size_wh (convert_image env im ''RGBA'') = size_wh im"
    by (simp add: convert_image_def)
  show ?thesis
    by (simp add: try_body_unfold op cv sz assms(4))
qed

lemma nth_output_distinct:
  assumes "j < k" and "k < length icon_sizes"
  shows "output_path (icon_sizes ! j) \<noteq> output_path (icon_sizes ! k)"
proof -
  have "distinct (map output_path icon_sizes)"
    using distinct_output_paths by (simp add: output_paths_def)
  moreover have "j < length (map output_path icon_sizes)" "k < length (map output_path icon_sizes)"
    using assms by simp_all
  ultimately have "map output_path icon_sizes ! j \<noteq> map output_path icon_sizes ! k"
    using assms(1) by (simp only: nth_eq_iff_index_eq)
  then show ?thesis using assms by simp
qed

lemma os_makedirs_succeeds:
  assumes "fault env (Call_makedirs p) = None"
    and "\<forall>d\<in>set (dir_chain p). files w d = None"
  shows "os_makedirs env p w = (Inr (), w\<lparr>dirs := dirs w \<union> set (dir_chain p)\<rparr>)"
  using assms
  by (simp add: os_makedirs_plain bind_io_apply refused_def return_io_def find_None_all)

lemma fresh_no_file_in_the_way: "\<forall>d\<in>set (dir_chain dest_dir). files fresh_world d = None"
  using source_not_dir by (auto simp: fresh_world_def)

lemma full_disk_fault:
  "fault full_disk_env c =
     (if c = Call_save_encode (dest_dir @ ''/Icon-40.png'')
      then Some (OSError ''No space left on device'') else None)"
  by (simp add: full_disk_env_def join_dest_dir)

lemma full_disk_convert: "convert_image full_disk_env clear_dot ''RGBA'' = clear_dot"
  by (simp add: convert_image_def full_disk_env_def plain_env_def clear_dot_def)

lemma full_disk_iteration:
  "fn \<noteq> ''Icon-40.png'' \<Longrightarrow> take 1 fn \<noteq> ''/'' \<Longrightarrow>
     \<exists>w'. icon_iteration full_disk_env clear_dot (s, fn) w = (Inr (), w')"
  using split_image_RGBA[of "resize_image full_disk_env clear_dot (s, s) LANCZOS"]
      size_last_split[of "resize_image full_disk_env clear_dot (s, s) LANCZOS"]
  by (auto simp: icon_iteration_plain bind_io_apply print_plain Image_resize_def refused_def
      return_io_def raise_io_def Image_new_def Image_split_def index_last_def Image_paste_def
      Image_save_plain resize_image_def new_image_def full_disk_fault join_dest_dir clear_dot_def)

lemma full_disk_fails:
  "\<exists>w'. icon_iteration full_disk_env clear_dot (40, ''Icon-40.png'') w
         = (Inl (OSError ''No space left on device''), w')"
  using split_image_RGBA[of "resize_image full_disk_env clear_dot (40, 40) LANCZOS"]
      size_last_split[of "resize_image full_disk_env clear_dot (40, 40) LANCZOS"]
  by (auto simp: icon_iteration_plain bind_io_apply print_plain Image_resize_def refused_def
      return_io_def raise_io_def Image_new_def Image_split_def index_last_def Image_paste_def
      Image_save_plain resize_image_def new_image_def full_disk_fault join_dest_dir clear_dot_def)

lemma full_disk_prefix:
  "\<exists>vk. for_each (take 2 icon_sizes) (icon_iteration full_disk_env clear_dot) v = (Inr (), vk)"
proof -
  obtain va where a: "icon_iteration full_disk_env clear_dot (20, ''Icon-20.png'') v = (Inr (), va)"
    using full_disk_iteration[of "''Icon-20.png''" 20 v] by auto
  obtain vk where b: "icon_iteration full_disk_env clear_dot (29, ''Icon-29.png'') va = (Inr (), vk)"
    using full_disk_iteration[of "''Icon-29.png''" 29 va] by auto
  show ?thesis
    by (simp add: icon_sizes_def bind_io_apply a b return_io_def)
qed

subsection \<open>Small facts\<close>

lemma find_eq_Some: "p \<in> set xs \<Longrightarrow> find (\<lambda>d. d = p) xs = Some p"
  by (induction xs) auto

lemma dest_dir_nonempty: "dest_dir \<noteq> []"
  by (simp add: dest_dir_def)

lemma plain_no_fault: "fault plain_env c = None"
  by (simp add: plain_env_def no_faults_def)

subsection \<open>Files a computation leaves alone\<close>

lemma touches_onlyI:
  "(\<And>w r w' q. m w = (r, w') \<Longrightarrow> q \<notin> S \<Longrightarrow> files w' q = files w q) \<Longrightarrow> touches_only S m"
  unfolding touches_only_def by blast

lemma touches_onlyD:
  "touches_only S m \<Longrightarrow> m w = (r, w') \<Longrightarrow> q \<notin> S \<Longrightarrow> files w' q = files w q"
  unfolding touches_only_def by blast

lemma touches_only_return: "touches_only S (return_io x)"
  by (simp add: touches_only_def return_io_def)

lemma touches_only_raise: "touches_only S (raise_io e)"
  by (simp add: touches_only_def raise_io_def)

lemma touches_only_bind:
  assumes "touches_only S m" and "\<And>x. touches_only S (f x)"
  shows "touches_only S (bind_io m f)"
proof (rule touches_onlyI)
  fix w r w' q
  assume run: "bind_io m f w = (r, w')" and q: "q \<notin> S"
  obtain r1 w1 where 1: "m w = (r1, w1)" by (cases "m w")
  note a = touches_onlyD[OF assms(1) 1 q]
  show "files w' q = files w q"
  proof (cases r1)
    case (Inl e)
    with run 1 a show ?thesis by (simp add: bind_io_apply)
  next
    case (Inr x)
    with run 1 have "f x w1 = (r, w')" by (simp add: bind_io_apply)
    from touches_onlyD[OF assms(2) this q] a show ?thesis by simp
  qed
qed

lemma touches_only_try_except:
  assumes "touches_only S m" and "\<And>e. touches_only S (h e)"
  shows "touches_only S (try_except m h)"
proof (rule touches_onlyI)
  fix w r w' q
  assume run: "try_except m h w = (r, w')" and q: "q \<notin> S"
  obtain r1 w1 where 1: "m w = (r1, w1)" by (cases "m w")
  note a = touches_onlyD[OF assms(1) 1 q]
  show "files w' q = files w q"
  proof (cases r1)
    case (Inl e)
    with run 1 have "h e w1 = (r, w')" by (simp add: try_except_def)
    from touches_onlyD[OF assms(2) this q] a show ?thesis by simp
  next
    case (Inr x)
    with run 1 a show ?thesis by (simp add: try_except_def)
  qed
qed

lemma touches_only_for_each:
  assumes "\<And>x. x \<in> set xs \<Longrightarrow> touches_only S (body x)"
  shows "touches_only S (for_each xs body)"
  using assms
  by (induction xs) (auto intro!: touches_only_bind touches_only_return)

lemma touches_only_refused: "touches_only S (refused env c)"
  by (simp add: refused_def touches_only_raise touches_only_return split: option.splits)

lemma touches_only_print: "touches_only S (print_on host m)"
  by (auto simp: touches_only_def print_on_def split: option.splits)

lemma touches_only_makedirs: "touches_only S (os_makedirs_on host env p)"
  unfolding os_makedirs_on_def
  by (intro touches_only_bind touches_only_refused)
     (auto simp: touches_only_def split: option.splits)

lemma touches_only_Image_open: "touches_only S (Image_open_on host env p)"
  unfolding Image_open_on_def
  by (intro touches_only_bind touches_only_refused)
     (auto simp: touches_only_def split: option.splits content.splits)

lemma touches_only_Image_convert: "touches_only S (Image_convert env im m)"
  unfolding Image_convert_def
  by (intro touches_only_bind touches_only_refused touches_only_return)

lemma touches_only_Image_resize: "touches_only S (Image_resize env im sz flt)"
  unfolding Image_resize_def
  by (intro touches_only_bind touches_only_refused touches_only_return)

lemma touches_only_Image_new: "touches_only S (Image_new env m sz c)"
  unfolding Image_new_def
  by (intro touches_only_bind touches_only_refused touches_only_return)

lemma touches_only_Image_split: "touches_only S (Image_split env im)"
  unfolding Image_split_def
  by (intro touches_only_bind touches_only_refused touches_only_return)

lemma touches_only_index_last: "touches_only S (index_last xs)"
  by (simp add: index_last_def touches_only_raise touches_only_return)

lemma touches_only_Image_paste: "touches_only S (Image_paste env bg im msk)"
  unfolding Image_paste_def
  by (intro touches_only_bind touches_only_refused)
     (simp add: touches_only_raise touches_only_return)

lemma touches_only_Image_save: "names host p \<in> S \<Longrightarrow> touches_only S (Image_save_on host env im p fmt)"
  unfolding Image_save_on_def
  by (intro touches_only_bind touches_only_refused)
     (auto simp: touches_only_def split: option.splits)

lemma touches_only_open_w: "names host p \<in> S \<Longrightarrow> touches_only S (open_w_on host env p)"
  unfolding open_w_on_def
  by (intro touches_only_bind touches_only_refused)
     (auto simp: touches_only_def)

lemma touches_only_json_dump: "names host f \<in> S \<Longrightarrow> touches_only S (json_dump_on host env v f n)"
  by (auto simp: touches_only_def json_dump_on_def split: option.splits)

lemma open_w_handle: "open_w_on host env p w = (Inr f, w') \<Longrightarrow> f = p"
  by (auto simp: open_w_on_def bind_io_apply refused_def raise_io_def return_io_def
      split: option.splits)

lemma touches_only_write_contents:
  assumes "names host p \<in> S"
  shows "touches_only S (write_contents_on host env p)"
proof (rule touches_onlyI)
  fix w r w' q
  assume run: "write_contents_on host env p w = (r, w')" and q: "q \<notin> S"
  obtain r1 w1 where 1: "open_w_on host env p w = (r1, w1)" by (cases "open_w_on host env p w")
  note a = touches_onlyD[OF touches_only_open_w[OF assms] 1 q]
  show "files w' q = files w q"
  proof (cases r1)
    case (Inl e)
    with run 1 a show ?thesis by (simp add: write_contents_on_def bind_io_apply)
  next
    case (Inr f)
    with 1 open_w_handle[of host env p w f w1] have f: "f = p" by simp
    with run 1 Inr have "json_dump_on host env contents_json p 2 w1 = (r, w')"
      by (simp add: write_contents_on_def bind_io_apply)
    from touches_onlyD[OF touches_only_json_dump[OF assms] this q] a show ?thesis by simp
  qed
qed

lemma touches_only_icon_iteration:
  assumes "spec \<in> set icon_sizes"
  shows "touches_only (names host ` set output_paths) (icon_iteration_on host env src spec)"
proof -
  obtain s fn where spec: "spec = (s, fn)" by (cases spec)
  have "os_path_join dest_dir fn \<in> set output_paths"
    using assms spec by (force simp: output_paths_def output_path_def)
  then have "names host (os_path_join dest_dir fn) \<in> names host ` set output_paths"
    by blast
  then show ?thesis
    unfolding icon_iteration_on_def spec prod.case bind_return
    by (intro touches_only_bind touches_only_print touches_only_Image_resize
        touches_only_Image_save touches_only_return)
       (auto intro!: touches_only_bind touches_only_Image_new touches_only_Image_split
        touches_only_index_last touches_only_Image_paste touches_only_return)
qed

lemma touches_only_try_body:
  "touches_only (names host ` set output_paths) (try_body_on host env)"
proof -
  have "names host (os_path_join dest_dir ''Contents.json'') \<in> names host ` set output_paths"
    by (simp add: output_paths_def contents_path_def)
  then show ?thesis
    unfolding try_body_on_def bind_return
    by (intro touches_only_bind touches_only_print touches_only_Image_open
        touches_only_Image_convert touches_only_for_each touches_only_icon_iteration
        touches_only_return touches_only_write_contents)
qed

lemma touches_only_generate:
  "touches_only (names host ` set output_paths) (generate_app_icons_on host env)"
  unfolding generate_app_icons_on_def
  by (intro touches_only_bind touches_only_try_except touches_only_makedirs touches_only_print
      touches_only_try_body touches_only_return)
     (simp add: touches_only_return split: option.splits)

subsection \<open>The run on any host\<close>

lemma os_makedirs_on_Inr:
  "os_makedirs_on host env p w = (Inr u, w') \<Longrightarrow> w' = w\<lparr>dirs := dirs w \<union> set (dir_chain p)\<rparr>"
  by (auto simp: os_makedirs_on_def bind_io_apply refused_def raise_io_def return_io_def
      split: option.splits)

lemma Image_open_on_world: "Image_open_on host env p w = (r, w') \<Longrightarrow> w' = w"
  by (auto simp: Image_open_on_def bind_io_apply refused_def raise_io_def return_io_def
      split: option.splits content.splits)

lemma generate_on_unfold:
  "generate_app_icons_on host env w =
     (case os_makedirs_on host env dest_dir w of
        (Inl e, w1) \<Rightarrow> (Inl e, w1)
      | (Inr u, w1) \<Rightarrow>
     (case console host (Loading source_path) of
        Some e \<Rightarrow> (Inl e, w1)
      | None \<Rightarrow>
     (case try_body_on host env (w1\<lparr>stdout := stdout w1 @ [Loading source_path]\<rparr>) of
        (Inl e, w3) \<Rightarrow>
          (case console host (Error e) of
             Some x \<Rightarrow> (Inl x, w3)
           | None \<Rightarrow> (Inr False, w3\<lparr>stdout := stdout w3 @ [Error e]\<rparr>))
      | (Inr u, w3) \<Rightarrow> (Inr True, w3))))"
  by (simp add: generate_app_icons_on_def bind_io_apply try_except_def print_on_def return_io_def
      split: prod.splits sum.splits option.splits)

lemma try_body_on_unfold:
  "try_body_on host env w =
     (case Image_open_on host env source_path w of
        (Inl e, w1) \<Rightarrow> (Inl e, w1)
      | (Inr im, w1) \<Rightarrow>
     (case Image_convert env im ''RGBA'' w1 of
        (Inl e, w2) \<Rightarrow> (Inl e, w2)
      | (Inr src, w2) \<Rightarrow>
     (case console host (Loaded (size_wh src)) of
        Some e \<Rightarrow> (Inl e, w2)
      | None \<Rightarrow>
     (case for_each icon_sizes (icon_iteration_on host env src)
             (w2\<lparr>stdout := stdout w2 @ [Loaded (size_wh src)]\<rparr>) of
        (Inl e, w3) \<Rightarrow> (Inl e, w3)
      | (Inr u, w3) \<Rightarrow>
     (case write_contents_on host env (os_path_join dest_dir ''Contents.json'') w3 of
        (Inl e, w4) \<Rightarrow> (Inl e, w4)
      | (Inr u, w4) \<Rightarrow>
     (case console host (GeneratedContents (os_path_join dest_dir ''Contents.json'')) of
        Some e \<Rightarrow> (Inl e, w4)
      | None \<Rightarrow>
     (case console host Complete of
        Some e \<Rightarrow>
          (Inl e, w4\<lparr>stdout := stdout w4 @ [GeneratedContents (os_path_join dest_dir ''Contents.json'')]\<rparr>)
      | None \<Rightarrow>
          (Inr (), w4\<lparr>stdout := stdout w4 @
             [GeneratedContents (os_path_join dest_dir ''Contents.json''), Complete]\<rparr>))))))))"
  by (auto simp: try_body_on_def bind_io_apply print_on_def return_io_def
      split: prod.splits sum.splits option.splits)

subsection \<open>Loading the source on any host\<close>

lemma names_plain_image: "names plain_host ` S = S"
  by (simp add: plain_host_def)

lemma Image_open_on_missing:
  assumes "fault env (Call_Image_open source_path) = None"
    and "files v (names host source_path) = None"
  shows "Image_open_on host env source_path v = (Inl (FileNotFoundError source_path), v)"
  using assms by (simp add: Image_open_on_def bind_io_apply refused_def return_io_def)

lemma os_makedirs_on_succeeds:
  assumes "fault env (Call_makedirs p) = None"
    and "\<forall>d\<in>set (dir_chain p). files w (names host d) = None"
  shows "os_makedirs_on host env p w = (Inr (), w\<lparr>dirs := dirs w \<union> set (dir_chain p)\<rparr>)"
  using assms
  by (simp add: os_makedirs_on_def bind_io_apply refused_def return_io_def find_None_all)

lemma try_body_on_load_fails:
  assumes "(\<forall>fmt im. files v (names host source_path) \<noteq> Some (ImageFile fmt im)) \<or>
           fault env (Call_Image_open source_path) \<noteq> None \<or>
           fault env (Call_convert ''RGBA'') \<noteq> None"
  shows "\<exists>e. try_body_on host env v = (Inl e, v)"
proof (cases "Image_open_on host env source_path v")
  case (Pair r1 v1)
  have v1: "v1 = v" using Image_open_on_world[OF Pair] .
  show ?thesis
  proof (cases r1)
    case (Inl e)
    with Pair v1 show ?thesis
      by (auto simp: try_body_on_unfold)
  next
    case (Inr im)
    have "fault env (Call_Image_open source_path) = None \<and>
          (\<exists>fmt. files v (names host source_path) = Some (ImageFile fmt im))"
      using Pair Inr
      by (auto simp: Image_open_on_def bind_io_apply refused_def raise_io_def return_io_def
          split: option.splits content.splits)
    with assms obtain e where "fault env (Call_convert ''RGBA'') = Some e"
      by auto
    then have "Image_convert env im ''RGBA'' v = (Inl e, v)"
      by (simp add: Image_convert_def bind_io_apply refused_def raise_io_def)
    with Pair Inr v1 show ?thesis
      by (auto simp: try_body_on_unfold)
  qed
qed

subsection \<open>The test of line 50\<close>

lemma bind_io_cong_result:
  assumes "\<And>x w'. m w = (Inr x, w') \<Longrightarrow> f x w' = g x w'"
  shows "bind_io m f w = bind_io m g w"
proof (cases "m w")
  case (Pair r w')
  then show ?thesis
    using assms by (cases r) (simp_all add: bind_io_apply)
qed

lemma Image_resize_Inr:
  "Image_resize env im sz flt w = (Inr r, w') \<Longrightarrow> r = resize_image env im sz flt"
  by (auto simp: Image_resize_def bind_io_apply refused_def raise_io_def return_io_def
      split: option.splits)

lemma icon_iteration_composites:
  assumes "mode src = ''RGBA''"
  shows "icon_iteration_on host env src = icon_iteration_always_composite host env src"
proof (intro ext)
  fix spec :: "nat \<times> string" and w
  obtain s fn where spec: "spec = (s, fn)" by (cases spec)
  show "icon_iteration_on host env src spec w = icon_iteration_always_composite host env src spec w"
    unfolding icon_iteration_on_def icon_iteration_always_composite_def spec prod.case
  proof (rule bind_io_cong_result, rule bind_io_cong_result)
    fix x w' resized w''
    assume "Image_resize env src (s, s) LANCZOS w' = (Inr resized, w'')"
    then have "mode resized = ''RGBA''"
      using Image_resize_Inr assms by (fastforce simp: resize_image_def)
    then show "bind_io
        (if mode resized = ''RGBA'' then
           bind_io (Image_new env ''RGB'' (s, s) [255, 255, 255]) (\<lambda>background.
           bind_io (Image_split env resized) (\<lambda>bands.
           bind_io (index_last bands) (\<lambda>msk.
           Image_paste env background resized msk)))
         else return_io resized) (\<lambda>resized.
          bind_io (return_io (os_path_join dest_dir fn)) (\<lambda>output_path.
          bind_io (Image_save_on host env resized output_path ''PNG'') (\<lambda>_.
          print_on host (Saved output_path)))) w'' =
       bind_io
        (bind_io (Image_new env ''RGB'' (s, s) [255, 255, 255]) (\<lambda>background.
         bind_io (Image_split env resized) (\<lambda>bands.
         bind_io (index_last bands) (\<lambda>msk.
         Image_paste env background resized msk)))) (\<lambda>resized.
          bind_io (return_io (os_path_join dest_dir fn)) (\<lambda>output_path.
          bind_io (Image_save_on host env resized output_path ''PNG'') (\<lambda>_.
          print_on host (Saved output_path)))) w''"
      by simp
  qed
qed

lemma try_body_composites: "try_body_on host env = try_body_always_composite host env"
proof (rule ext)
  fix w
  show "try_body_on host env w = try_body_always_composite host env w"
    unfolding try_body_on_def try_body_always_composite_def
  proof (rule bind_io_cong_result, rule bind_io_cong_result)
    fix im w' src w''
    assume "Image_convert env im ''RGBA'' w' = (Inr src, w'')"
    then have "mode src = ''RGBA''"
      using Image_convert_Inr by (fastforce simp: convert_image_def)
    then show "bind_io (print_on host (Loaded (size_wh src))) (\<lambda>_.
        bind_io (for_each icon_sizes (icon_iteration_on host env src)) (\<lambda>_.
        bind_io (return_io (os_path_join dest_dir ''Contents.json'')) (\<lambda>contents_path.
        bind_io (write_contents_on host env contents_path) (\<lambda>_.
        bind_io (print_on host (GeneratedContents contents_path)) (\<lambda>_.
        print_on host Complete))))) w'' =
      bind_io (print_on host (Loaded (size_wh src))) (\<lambda>_.
        bind_io (for_each icon_sizes (icon_iteration_always_composite host env src)) (\<lambda>_.
        bind_io (return_io (os_path_join dest_dir ''Contents.json'')) (\<lambda>contents_path.
        bind_io (write_contents_on host env contents_path) (\<lambda>_.
        bind_io (print_on host (GeneratedContents contents_path)) (\<lambda>_.
        print_on host Complete))))) w''"
      by (simp only: icon_iteration_composites)
  qed
qed

subsection \<open>A raise inside the loop, on any host\<close>

lemma generate_on_try_raises:
  assumes "os_makedirs_on host env dest_dir w = (Inr (), w1)"
    and "console host (Loading source_path) = None"
    and "console host (Error e) = None"
    and "try_body_on host env (w1\<lparr>stdout := stdout w1 @ [Loading source_path]\<rparr>) = (Inl e, v')"
  shows "generate_app_icons_on host env w = (Inr False, v'\<lparr>stdout := stdout v' @ [Error e]\<rparr>)"
  by (simp only: generate_on_unfold assms prod.case sum.case option.case)

lemma try_body_on_loop_raises:
  assumes "Image_open_on host env source_path v = (Inr im, v)"
    and "Image_convert env im ''RGBA'' v = (Inr src, v)"
    and "console host (Loaded (size_wh src)) = None"
    and "k < length icon_sizes"
    and "for_each (take k icon_sizes) (icon_iteration_on host env src)
           (v\<lparr>stdout := stdout v @ [Loaded (size_wh src)]\<rparr>) = (Inr (), vk)"
    and "icon_iteration_on host env src (icon_sizes ! k) vk = (Inl e, v')"
  shows "try_body_on host env v = (Inl e, v')"
  using loop_abort[OF assms(4,5,6)]
  by (simp add: try_body_on_unfold assms(1,2,3))

lemma icon_iteration_on_files:
  assumes "icon_iteration_on host env src (s, fn) w = (Inr u, w')"
  shows "files w' = (files w)(names host (os_path_join dest_dir fn) \<mapsto>
                        ImageFile ''PNG'' (icon_image env src s))"
  using assms split_image_RGBA[of "resize_image env src (s, s) LANCZOS"]
     size_last_split[of "resize_image env src (s, s) LANCZOS"]
  by (auto simp: icon_iteration_on_def bind_io_apply print_on_def Image_resize_def refused_def
      return_io_def raise_io_def Image_new_def Image_split_def index_last_def Image_paste_def
      Image_save_on_def icon_image_def Let_def resize_image_def new_image_def
      split: option.splits if_splits)

lemma short_memory_fault:
  "fault short_memory_env c = (if c = Call_resize (29, 29) then Some MemoryError else None)"
  by (simp add: short_memory_env_def)

lemma short_memory_convert: "convert_image short_memory_env clear_dot ''RGBA'' = clear_dot"
  by (simp add: convert_image_def short_memory_env_def plain_env_def clear_dot_def)

lemma linked_console: "console linked_host m = None"
  by (simp add: linked_host_def)

lemma linked_names:
  "names linked_host p = (if p = dest_dir @ ''/Icon-20.png'' then notes_path else p)"
  by (simp add: linked_host_def join_dest_dir)

lemma linked_first_icon:
  "\<exists>w'. icon_iteration_on linked_host short_memory_env clear_dot (20, ''Icon-20.png'') w = (Inr (), w')"
  using split_image_RGBA[of "resize_image short_memory_env clear_dot (20, 20) LANCZOS"]
      size_last_split[of "resize_image short_memory_env clear_dot (20, 20) LANCZOS"]
  by (auto simp: icon_iteration_on_def bind_io_apply print_on_def Image_resize_def refused_def
      return_io_def raise_io_def Image_new_def Image_split_def index_last_def Image_paste_def
      Image_save_on_def resize_image_def new_image_def short_memory_fault linked_console
      clear_dot_def)

lemma linked_second_icon:
  "icon_iteration_on linked_host short_memory_env clear_dot (29, ''Icon-29.png'') w
     = (Inl MemoryError, w\<lparr>stdout := stdout w @ [Generating 29 ''Icon-29.png'']\<rparr>)"
  by (simp add: icon_iteration_on_def bind_io_apply print_on_def Image_resize_def refused_def
      raise_io_def short_memory_fault linked_console)

lemma for_each_first_icon:
  "body (20, ''Icon-20.png'') v = (Inr (), vk) \<Longrightarrow>
     for_each (take 1 icon_sizes) body v = (Inr (), vk)"
  by (simp add: icon_sizes_def bind_io_apply return_io_def)

subsection \<open>A raise inside an iteration or inside the with block\<close>

lemma iteration_raise_propagates:
  assumes "console host (Generating s fn) = None"
    and "u1 = u\<lparr>stdout := stdout u @ [Generating s fn]\<rparr>"
  shows
   "(Image_resize env src (s, s) LANCZOS u1 = (Inl e, u') \<longrightarrow>
       icon_iteration_on host env src (s, fn) u = (Inl e, u'))
    \<and>
    (Image_resize env src (s, s) LANCZOS u1 = (Inr resized, u2) \<and> mode resized = ''RGBA'' \<longrightarrow>
       (Image_new env ''RGB'' (s, s) [255, 255, 255] u2 = (Inl e, u') \<longrightarrow>
          icon_iteration_on host env src (s, fn) u = (Inl e, u'))
       \<and>
       (Image_new env ''RGB'' (s, s) [255, 255, 255] u2 = (Inr bg, u3) \<longrightarrow>
          (Image_split env resized u3 = (Inl e, u') \<longrightarrow>
             icon_iteration_on host env src (s, fn) u = (Inl e, u'))
          \<and>
          (Image_split env resized u3 = (Inr bands, u4) \<and> bands \<noteq> [] \<longrightarrow>
             (Image_paste env bg resized (last bands) u4 = (Inl e, u') \<longrightarrow>
                icon_iteration_on host env src (s, fn) u = (Inl e, u'))
             \<and>
             (Image_paste env bg resized (last bands) u4 = (Inr flat, u5) \<and>
              Image_save_on host env flat (os_path_join dest_dir fn) ''PNG'' u5 = (Inl e, u') \<longrightarrow>
                icon_iteration_on host env src (s, fn) u = (Inl e, u')))))"
  using assms
  by (simp add: icon_iteration_on_def bind_io_apply print_on_def return_io_def index_last_def)

lemma manifest_raise_propagates:
  "(open_w_on host env p u = (Inl e, u') \<longrightarrow> write_contents_on host env p u = (Inl e, u'))
   \<and>
   (open_w_on host env p u = (Inr f, u1) \<and> json_dump_on host env contents_json f 2 u1 = (Inl e, u') \<longrightarrow>
      write_contents_on host env p u = (Inl e, u'))"
  by (simp add: write_contents_on_def bind_io_apply)

section \<open>The claims\<close>

text \<open>
  C1, C2, C3, C6, C8 and C9 are stated for \<open>generate_app_icons\<close>, the script on the plain
  host: every line is printed and the fourteen output paths name fourteen files of their own.
  C4, C5, C7 and C10 are stated for \<open>generate_app_icons_on\<close>, the script on any host.
\<close>

text \<open>
  C1. When the run returns \<open>True\<close>, the file \<open>Contents.json\<close> of the destination directory
  holds the dump of \<open>contents_json\<close> with indent 2, whatever the environment and the world
  (and so whatever the source image) were. That value is an object with the keys \<open>images\<close>
  and \<open>info\<close>; \<open>images\<close> is a list of 16 objects, each with exactly the keys \<open>filename\<close>,
  \<open>idiom\<close>, \<open>scale\<close> and \<open>size\<close>; \<open>info\<close> is \<open>{author: xcode, version: 1}\<close>.
\<close>

theorem manifest_fixed:
  assumes "generate_app_icons env w = (Inr True, w')"
  shows "files w' (os_path_join dest_dir ''Contents.json'') = Some (JsonText contents_json 2) \<and>
         keys_of contents_json = [''images'', ''info''] \<and>
         length manifest_images = 16 \<and>
         list_all (\<lambda>e. keys_of e = [''filename'', ''idiom'', ''scale'', ''size'']) manifest_images \<and>
         lookup_key ''info'' contents_json =
           Some (JObject [(''author'', JString ''xcode''), (''version'', JInt 1)])"
proof -
  from run_ok[OF assms] have "files w' contents_path = Some (JsonText contents_json 2)"
    by auto
  then have "files w' (os_path_join dest_dir ''Contents.json'') = Some (JsonText contents_json 2)"
    by (simp add: contents_path_def)
  moreover have "keys_of contents_json = [''images'', ''info'']"
    by (simp add: keys_of_def contents_json_def)
  moreover have "list_all (\<lambda>e. keys_of e = [''filename'', ''idiom'', ''scale'', ''size'']) manifest_images"
    by (simp add: manifest_images_def lookup_key_def contents_json_def elements_def
        image_entry_def keys_of_def)
  moreover have "lookup_key ''info'' contents_json =
           Some (JObject [(''author'', JString ''xcode''), (''version'', JInt 1)])"
    by (simp add: lookup_key_def contents_json_def)
  ultimately show ?thesis
    using manifest_images_length by blast
qed

theorem manifest_fixed_witness:
  "fst (generate_app_icons plain_env fresh_world) = Inr True \<and>
   files (snd (generate_app_icons plain_env fresh_world)) (os_path_join dest_dir ''Contents.json'')
     = Some (JsonText contents_json 2)"
proof -
  from fresh_run obtain w' where r: "generate_app_icons plain_env fresh_world = (Inr True, w')"
    by blast
  from manifest_fixed[OF r] r show ?thesis by simp
qed



text \<open>
  C9. Every \<open>filename\<close> of the 16 entries of the manifest is a file name of the table
  \<open>icon_sizes\<close>: the manifest names no file the loop does not write.
\<close>

theorem manifest_names_generated:
  "set manifest_filenames \<subseteq> snd ` set icon_sizes \<and> length manifest_filenames = 16"
  by (simp add: manifest_filenames_def manifest_images_def lookup_key_def contents_json_def
      elements_def image_entry_def icon_sizes_def)

text \<open>
  C3. When the run returns \<open>True\<close>, every icon file holds an image of mode \<open>RGB\<close>: three
  bands, none of them alpha. Its pixels are the pixels of the resized \<open>RGBA\<close> image blended
  over white (255, 255, 255) with the pixel's own alpha as the mask: where the resized image is
  transparent (alpha 0) the icon is white, where it is opaque (alpha 255) the icon has its colour.
\<close>

theorem icons_opaque_on_white:
  assumes "generate_app_icons env w = (Inr True, w')"
    and "(edge, filename) \<in> set icon_sizes"
  shows "\<exists>fmt src im resized.
           files w source_path = Some (ImageFile fmt src) \<and>
           resized = resize_image env (convert_image env src ''RGBA'') (edge, edge) LANCZOS \<and>
           files w' (os_path_join dest_dir filename) = Some (ImageFile ''PNG'' im) \<and>
           mode im = ''RGB'' \<and> getbands (mode im) = [''R'', ''G'', ''B''] \<and>
           length (pixels im) = min (edge * edge) (length (pixels resized)) \<and>
           (\<forall>i r g b a. i < length (pixels im) \<and> pixels resized ! i = [r, g, b, a] \<longrightarrow>
               pixels im ! i = [BLEND8 a 255 r, BLEND8 a 255 g, BLEND8 a 255 b] \<and>
               (a = 0 \<longrightarrow> pixels im ! i = [255, 255, 255]) \<and>
               (a = 255 \<longrightarrow> pixels im ! i = [r, g, b]))"
proof -
  from icon_file_after_run[OF assms] obtain fmt src where
    f: "files w source_path = Some (ImageFile fmt src)"
    and g: "files w' (os_path_join dest_dir filename) =
             Some (ImageFile ''PNG'' (icon_image env (convert_image env src ''RGBA'') edge))"
    by blast
  let ?im = "icon_image env (convert_image env src ''RGBA'') edge"
  let ?r = "resize_image env (convert_image env src ''RGBA'') (edge, edge) LANCZOS"
  note im = icon_image_RGBA[OF mode_convert, of env env src edge]
  have md: "mode ?im = ''RGB''" by (simp add: im)
  have len: "length (pixels ?im) = min (edge * edge) (length (pixels ?r))"
    by (simp add: im)
  have px: "pixels ?im ! i = [BLEND8 a 255 r, BLEND8 a 255 g, BLEND8 a 255 b]"
    if "i < length (pixels ?im)" and "pixels ?r ! i = [r, g, b, a]" for i r g b a
    using that by (simp add: im paste_pixel_def)
  have gb: "getbands (mode ?im) = [''R'', ''G'', ''B'']"
    by (simp add: md getbands_def)
  have "\<forall>i r g b a. i < length (pixels ?im) \<and> pixels ?r ! i = [r, g, b, a] \<longrightarrow>
               pixels ?im ! i = [BLEND8 a 255 r, BLEND8 a 255 g, BLEND8 a 255 b] \<and>
               (a = 0 \<longrightarrow> pixels ?im ! i = [255, 255, 255]) \<and>
               (a = 255 \<longrightarrow> pixels ?im ! i = [r, g, b])"
    using px by (auto simp: BLEND8_transparent BLEND8_opaque)
  with f g md gb len show ?thesis
    by (intro exI[of _ fmt] exI[of _ src] exI[of _ ?im] exI[of _ ?r] conjI refl)
qed

theorem icons_opaque_on_white_witness:
  "fst (generate_app_icons plain_env fresh_world) = Inr True \<and>
   (20, ''Icon-20.png'') \<in> set icon_sizes \<and>
   (\<exists>im. files (snd (generate_app_icons plain_env fresh_world))
            (os_path_join dest_dir ''Icon-20.png'') = Some (ImageFile ''PNG'' im) \<and>
         mode im = ''RGB'' \<and> length (pixels im) = 400 \<and> pixels im ! 0 = [255, 255, 255])"
proof -
  from fresh_run obtain w' where r: "generate_app_icons plain_env fresh_world = (Inr True, w')"
    by blast
  have m: "(20, ''Icon-20.png'') \<in> set icon_sizes"
    by (simp add: icon_sizes_def)
  from icons_opaque_on_white[OF r m] obtain fmt src im where
    f: "files fresh_world source_path = Some (ImageFile fmt src)"
    and g: "files w' (os_path_join dest_dir ''Icon-20.png'') = Some (ImageFile ''PNG'' im)"
    and md: "mode im = ''RGB''"
    and len: "length (pixels im) =
        min (20 * 20) (length (pixels (resize_image plain_env (convert_image plain_env src ''RGBA'') (20, 20) LANCZOS)))"
    and px: "\<forall>i r g b a. i < length (pixels im) \<and>
        pixels (resize_image plain_env (convert_image plain_env src ''RGBA'') (20, 20) LANCZOS) ! i
          = [r, g, b, a] \<longrightarrow>
        pixels im ! i = [BLEND8 a 255 r, BLEND8 a 255 g, BLEND8 a 255 b] \<and>
        (a = 0 \<longrightarrow> pixels im ! i = [255, 255, 255]) \<and>
        (a = 255 \<longrightarrow> pixels im ! i = [r, g, b])"
    by blast
  from f have src: "src = clear_dot"
    by (simp add: fresh_world_def)
  have res: "pixels (resize_image plain_env (convert_image plain_env src ''RGBA'') (20, 20) LANCZOS)
      = replicate 400 [0, 0, 0, 0]"
    by (simp add: src resize_image_def convert_image_def plain_env_def clear_dot_def)
  from len have l: "length (pixels im) = 400"
    by (simp add: res)
  from px[rule_format, of 0 0 0 0 0] have "pixels im ! 0 = [255, 255, 255]"
    by (simp add: res l BLEND8_transparent)
  with r m g md l show ?thesis by simp
qed

text \<open>
  C6. Two runs that return \<open>True\<close>, in the same environment up to which calls are refused,
  and from worlds that hold the same source file, leave the same content in each of the fourteen
  output files: encoders, conversion and resampling being functions, equal contents are equal
  bytes. In particular a second run started in the world the first run left changes no file at
  all.
\<close>

theorem regeneration_identical:
  assumes "generate_app_icons env w = (Inr True, w1)"
    and "generate_app_icons (env\<lparr>fault := f\<rparr>) v = (Inr True, v1)"
    and "files v source_path = files w source_path \<or> v = w1"
  shows "(\<forall>p\<in>set output_paths. files v1 p = files w1 p) \<and> (v = w1 \<longrightarrow> files v1 = files w1)"
proof -
  from run_ok[OF assms(1)] obtain fmt src where
    f: "files w source_path = Some (ImageFile fmt src)"
    and g: "files w1 = (\<lambda>p. if p = contents_path then Some (JsonText contents_json 2)
                           else case find (\<lambda>spec. output_path spec = p) (rev icon_sizes) of
                              Some spec \<Rightarrow> Some (ImageFile ''PNG''
                                 (icon_image env (convert_image env src ''RGBA'') (fst spec)))
                            | None \<Rightarrow> files w p)"
    by blast
  from run_ok[OF assms(2)] obtain fmt' src' where
    f': "files v source_path = Some (ImageFile fmt' src')"
    and g0: "files v1 = (\<lambda>p. if p = contents_path then Some (JsonText contents_json 2)
                           else case find (\<lambda>spec. output_path spec = p) (rev icon_sizes) of
                              Some spec \<Rightarrow> Some (ImageFile ''PNG''
                                 (icon_image (env\<lparr>fault := f\<rparr>)
                                    (convert_image (env\<lparr>fault := f\<rparr>) src' ''RGBA'') (fst spec)))
                            | None \<Rightarrow> files v p)"
    by blast
  note g' = g0[unfolded icon_image_fault convert_image_fault]
  have "files w1 source_path = files w source_path"
    using run_effect[OF assms(1)] source_not_output by blast
  with assms(3) f f' have same: "src' = src"
    by auto
  have out: "files v1 p = files w1 p" if "p \<in> set output_paths" for p
  proof (cases "p = contents_path")
    case True
    then show ?thesis by (simp add: g g')
  next
    case False
    with output_cases[OF that] obtain spec where sp: "spec \<in> set icon_sizes" "p = output_path spec"
      by blast
    have "distinct (map output_path icon_sizes)"
      using distinct_output_paths by (simp add: output_paths_def)
    from find_rev_distinct[OF this sp(1)]
    have "find (\<lambda>s. output_path s = p) (rev icon_sizes) = Some spec"
      by (simp add: sp(2))
    then show ?thesis
      using False by (simp add: g g' same)
  qed
  have "files v1 p = files w1 p" if "v = w1" for p
  proof (cases "p \<in> set output_paths")
    case True
    then show ?thesis by (rule out)
  next
    case False
    then have "files v1 p = files v p"
      using run_effect[OF assms(2)] by blast
    with that show ?thesis by simp
  qed
  with out show ?thesis by auto
qed

theorem regeneration_identical_witness:
  "fst (generate_app_icons plain_env fresh_world) = Inr True \<and>
   fst (generate_app_icons plain_env (snd (generate_app_icons plain_env fresh_world))) = Inr True \<and>
   files (snd (generate_app_icons plain_env (snd (generate_app_icons plain_env fresh_world))))
     = files (snd (generate_app_icons plain_env fresh_world))"
proof -
  from fresh_run obtain w1 where r1: "generate_app_icons plain_env fresh_world = (Inr True, w1)"
    by blast
  from fresh_rerun[OF r1] obtain w2 where r2: "generate_app_icons plain_env w1 = (Inr True, w2)"
    by blast
  have e: "plain_env\<lparr>fault := no_faults\<rparr> = plain_env"
    by (simp add: plain_env_def)
  from regeneration_identical[of plain_env fresh_world w1 no_faults w1 w2] r1 r2
  have "files w2 = files w1"
    by (simp add: e)
  with r1 r2 show ?thesis by simp
qed

text \<open>
  C8. The completed file writes of a run are, in this order, an initial part of
  \<open>output_paths\<close>: the thirteen icon files in the order of the table, then \<open>Contents.json\<close>;
  all fourteen are written exactly when the run returns \<open>True\<close>. And when the directory was
  created, the source was loaded, the first \<open>k\<close> iterations returned and iteration \<open>k\<close>
  raises, then the run returns \<open>False\<close>, the writes completed are exactly the first \<open>k\<close> icon
  files, each holding its icon, and \<open>Contents.json\<close> is as it was before the run.
\<close>

theorem writes_follow_table:
  "(generate_app_icons env w = (r, w') \<longrightarrow>
      (\<exists>n\<le>length output_paths. written w' = written w @ take n output_paths \<and>
          (r = Inr True \<longleftrightarrow> n = length output_paths)))
   \<and>
   (os_makedirs env dest_dir w = (Inr (), w1) \<and>
    files w source_path = Some (ImageFile fmt im) \<and>
    fault env (Call_Image_open source_path) = None \<and>
    fault env (Call_convert ''RGBA'') = None \<and>
    k < length icon_sizes \<and>
    for_each (take k icon_sizes) (icon_iteration env (convert_image env im ''RGBA''))
       (w1\<lparr>stdout := stdout w1 @ [Loading source_path, Loaded (size_wh im)]\<rparr>) = (Inr (), vk) \<and>
    icon_iteration env (convert_image env im ''RGBA'') (icon_sizes ! k) vk = (Inl e, v')
    \<longrightarrow>
      generate_app_icons env w = (Inr False, v'\<lparr>stdout := stdout v' @ [Error e]\<rparr>) \<and>
      written v' = written w @ map output_path (take k icon_sizes) \<and>
      contents_path \<notin> set (map output_path (take k icon_sizes)) \<and>
      files v' contents_path = files w contents_path \<and>
      (\<forall>j<k. files v' (output_path (icon_sizes ! j)) =
          Some (ImageFile ''PNG'' (icon_image env (convert_image env im ''RGBA'') (fst (icon_sizes ! j))))))"
proof (rule conjI; rule impI)
  assume "generate_app_icons env w = (r, w')"
  from run_effect[OF this]
  show "\<exists>n\<le>length output_paths. written w' = written w @ take n output_paths \<and>
          (r = Inr True \<longleftrightarrow> n = length output_paths)"
    by blast
next
  let ?src = "convert_image env im ''RGBA''"
  let ?v = "w1\<lparr>stdout := stdout w1 @ [Loading source_path]\<rparr>"
  let ?start = "w1\<lparr>stdout := stdout w1 @ [Loading source_path, Loaded (size_wh im)]\<rparr>"
  assume h: "os_makedirs env dest_dir w = (Inr (), w1) \<and>
    files w source_path = Some (ImageFile fmt im) \<and>
    fault env (Call_Image_open source_path) = None \<and>
    fault env (Call_convert ''RGBA'') = None \<and>
    k < length icon_sizes \<and>
    for_each (take k icon_sizes) (icon_iteration env ?src) ?start = (Inr (), vk) \<and>
    icon_iteration env ?src (icon_sizes ! k) vk = (Inl e, v')"
  then have mk: "os_makedirs env dest_dir w = (Inr (), w1)"
    and f: "files w source_path = Some (ImageFile fmt im)"
    and f1: "fault env (Call_Image_open source_path) = None"
    and f2: "fault env (Call_convert ''RGBA'') = None"
    and k: "k < length icon_sizes"
    and pre: "for_each (take k icon_sizes) (icon_iteration env ?src) ?start = (Inr (), vk)"
    and it: "icon_iteration env ?src (icon_sizes ! k) vk = (Inl e, v')"
    by blast+
  note a = os_makedirs_Inr[OF mk]
  have lp: "for_each icon_sizes (icon_iteration env ?src) ?start = (Inl e, v')"
    using loop_abort[OF k pre it] .
  have st: "?v\<lparr>stdout := stdout ?v @ [Loaded (size_wh im)]\<rparr> = ?start"
    by simp
  have "files ?v source_path = Some (ImageFile fmt im)"
    using f a by simp
  from try_body_loop_fails[OF this f1 f2 lp[folded st]]
  have tb: "try_body env ?v = (Inl e, v')" .
  have run: "generate_app_icons env w = (Inr False, v'\<lparr>stdout := stdout v' @ [Error e]\<rparr>)"
    by (simp only: generate_unfold mk tb prod.case sum.case)
  note b = loop_Inr[OF pre]
  obtain s fn where x: "icon_sizes ! k = (s, fn)" by (cases "icon_sizes ! k")
  note c = icon_iteration_Inl[OF it[unfolded x]]
  have wr: "written v' = written w @ map output_path (take k icon_sizes)"
    using a b c by simp
  have nc: "contents_path \<notin> set (map output_path (take k icon_sizes))"
    using contents_not_icon by (auto dest: in_set_takeD)
  have "contents_path \<noteq> output_path (s, fn)"
    using contents_not_icon k x by (metis image_eqI nth_mem)
  then have fc: "files v' contents_path = files w contents_path"
    using a b c nc by (simp add: find_None_notin)
  have ic: "files v' (output_path (icon_sizes ! j)) =
          Some (ImageFile ''PNG'' (icon_image env ?src (fst (icon_sizes ! j))))" if "j < k" for j
  proof -
    have d: "distinct (map output_path (take k icon_sizes))"
      using distinct_output_paths by (simp add: output_paths_def take_map[symmetric] distinct_take)
    have m: "icon_sizes ! j \<in> set (take k icon_sizes)"
      using that k by (metis in_set_conv_nth length_take min.absorb2 nth_take order_less_imp_le)
    have "output_path (icon_sizes ! j) \<noteq> output_path (s, fn)"
      using nth_output_distinct[OF that k] x by simp
    then have "files v' (output_path (icon_sizes ! j)) = files vk (output_path (icon_sizes ! j))"
      using c by simp
    also have "\<dots> = Some (ImageFile ''PNG'' (icon_image env ?src (fst (icon_sizes ! j))))"
      using b find_rev_distinct[OF d m] by simp
    finally show ?thesis .
  qed
  show "generate_app_icons env w = (Inr False, v'\<lparr>stdout := stdout v' @ [Error e]\<rparr>) \<and>
      written v' = written w @ map output_path (take k icon_sizes) \<and>
      contents_path \<notin> set (map output_path (take k icon_sizes)) \<and>
      files v' contents_path = files w contents_path \<and>
      (\<forall>j<k. files v' (output_path (icon_sizes ! j)) =
          Some (ImageFile ''PNG'' (icon_image env ?src (fst (icon_sizes ! j)))))"
    using run wr nc fc ic by blast
qed


theorem writes_follow_table_witness:
  "\<exists>w1 vk v'.
     os_makedirs full_disk_env dest_dir fresh_world = (Inr (), w1) \<and>
     for_each (take 2 icon_sizes) (icon_iteration full_disk_env clear_dot)
       (w1\<lparr>stdout := stdout w1 @ [Loading source_path, Loaded (1, 1)]\<rparr>) = (Inr (), vk) \<and>
     icon_iteration full_disk_env clear_dot (icon_sizes ! 2) vk
       = (Inl (OSError ''No space left on device''), v') \<and>
     generate_app_icons full_disk_env fresh_world
       = (Inr False, v'\<lparr>stdout := stdout v' @ [Error (OSError ''No space left on device'')]\<rparr>) \<and>
     written v' = [os_path_join dest_dir ''Icon-20.png'', os_path_join dest_dir ''Icon-29.png''] \<and>
     files v' (os_path_join dest_dir ''Contents.json'') = None"
proof -
  let ?e = "OSError ''No space left on device''"
  have "fault full_disk_env (Call_makedirs dest_dir) = None"
    by (simp add: full_disk_fault)
  from os_makedirs_succeeds[OF this fresh_no_file_in_the_way]
  obtain w1 where mk: "os_makedirs full_disk_env dest_dir fresh_world = (Inr (), w1)"
    by blast
  let ?start = "w1\<lparr>stdout := stdout w1 @ [Loading source_path, Loaded (1, 1)]\<rparr>"
  obtain vk where pre: "for_each (take 2 icon_sizes) (icon_iteration full_disk_env clear_dot) ?start = (Inr (), vk)"
    using full_disk_prefix[of ?start] by blast
  obtain v' where c: "icon_iteration full_disk_env clear_dot (40, ''Icon-40.png'') vk = (Inl ?e, v')"
    using full_disk_fails[of vk] by blast
  have it: "icon_iteration full_disk_env clear_dot (icon_sizes ! 2) vk = (Inl ?e, v')"
    by (simp add: icon_sizes_def c)
  have sz: "size_wh clear_dot = (1, 1)"
    by (simp add: clear_dot_def)
  have hyp: "os_makedirs full_disk_env dest_dir fresh_world = (Inr (), w1) \<and>
    files fresh_world source_path = Some (ImageFile ''PNG'' clear_dot) \<and>
    fault full_disk_env (Call_Image_open source_path) = None \<and>
    fault full_disk_env (Call_convert ''RGBA'') = None \<and>
    2 < length icon_sizes \<and>
    for_each (take 2 icon_sizes) (icon_iteration full_disk_env (convert_image full_disk_env clear_dot ''RGBA''))
       (w1\<lparr>stdout := stdout w1 @ [Loading source_path, Loaded (size_wh clear_dot)]\<rparr>) = (Inr (), vk) \<and>
    icon_iteration full_disk_env (convert_image full_disk_env clear_dot ''RGBA'') (icon_sizes ! 2) vk = (Inl ?e, v')"
    using mk pre it
    by (simp add: full_disk_convert sz full_disk_fault fresh_world_def) (simp add: icon_sizes_def)
  note t = writes_follow_table[of full_disk_env fresh_world "Inr True" fresh_world w1 "''PNG''"
      clear_dot 2 vk ?e v', THEN conjunct2, rule_format, OF hyp]
  from t have run: "generate_app_icons full_disk_env fresh_world
       = (Inr False, v'\<lparr>stdout := stdout v' @ [Error ?e]\<rparr>)"
    by blast
  from t have "written v' = written fresh_world @ map output_path (take 2 icon_sizes)"
    by blast
  then have wr: "written v' = [os_path_join dest_dir ''Icon-20.png'', os_path_join dest_dir ''Icon-29.png'']"
    by (simp add: fresh_world_def icon_sizes_def output_path_def)
  from t have "files v' contents_path = files fresh_world contents_path"
    by blast
  then have fc: "files v' (os_path_join dest_dir ''Contents.json'') = None"
    using source_not_output
    by (auto simp: contents_path_def fresh_world_def output_paths_def)
  from mk pre it run wr fc show ?thesis
    by blast
qed

text \<open>
  C7, as the code has it. Whatever a run does (return \<open>True\<close>, return \<open>False\<close> or raise), on any
  host, a file keeps its content when it is none of the fourteen files the paths of
  \<open>output_paths\<close> name on that host: the file \<open>names host p\<close> is untouched whenever no output
  path names it.
\<close>

theorem unrelated_files_untouched:
  assumes "generate_app_icons_on host env w = (r, w')"
    and "names host p \<notin> names host ` set output_paths"
  shows "files w' (names host p) = files w (names host p)"
  using touches_onlyD[OF touches_only_generate assms] .

theorem unrelated_files_untouched_witness:
  "fst (generate_app_icons_on plain_host plain_env used_world) = Inr True \<and>
   names plain_host notes_path \<notin> names plain_host ` set output_paths \<and>
   files used_world (names plain_host notes_path) = Some (Text ''keep'') \<and>
   files (snd (generate_app_icons_on plain_host plain_env used_world)) (names plain_host notes_path)
     = Some (Text ''keep'')"
proof -
  from used_run obtain w' where
    r: "generate_app_icons_on plain_host plain_env used_world = (Inr True, w')"
    by (auto simp: generate_app_icons_def)
  have n: "names plain_host notes_path \<notin> names plain_host ` set output_paths"
    using notes_not_output by (simp add: names_plain_image names_plain)
  have "files used_world (names plain_host notes_path) = Some (Text ''keep'')"
    by (simp add: used_world_def names_plain)
  with unrelated_files_untouched[OF r n] r n show ?thesis
    by simp
qed

text \<open>
  C7 as stated, for every file whose name is not one of the fourteen, fails where such a file
  is reachable under one of the fourteen names: with \<open>Icon-20.png\<close> a symbolic link to
  \<open>notes.txt\<close>, \<open>save\<close> writes the first icon into \<open>notes.txt\<close>.
\<close>

theorem link_is_written_through:
  "notes_path \<notin> set output_paths \<and>
   files used_world notes_path = Some (Text ''keep'') \<and>
   names linked_host notes_path = notes_path \<and>
   fst (generate_app_icons_on linked_host short_memory_env used_world) = Inr False \<and>
   files (snd (generate_app_icons_on linked_host short_memory_env used_world)) notes_path
     = Some (ImageFile ''PNG'' (icon_image short_memory_env clear_dot 20))"
proof -
  let ?h = linked_host and ?e = short_memory_env
  have icon_long: "length dest_dir < length (dest_dir @ ''/Icon-20.png'')"
    by simp
  have nn: "names ?h notes_path = notes_path"
    by (simp add: linked_names notes_path_eq)
  have ns: "names ?h source_path = source_path"
    using source_not_output by (auto simp: linked_names output_paths_eq)
  have "\<forall>d\<in>set (dir_chain dest_dir). files used_world (names ?h d) = None"
  proof
    fix d assume d: "d \<in> set (dir_chain dest_dir)"
    then have "d \<noteq> dest_dir @ ''/Icon-20.png''"
      using dir_chain_length[OF d] by auto
    then have "names ?h d = d" by (simp add: linked_names)
    moreover have "d \<noteq> source_path" "d \<noteq> notes_path"
      using d source_not_dir notes_not_dir by auto
    ultimately show "files used_world (names ?h d) = None"
      by (simp add: used_world_def fresh_world_def)
  qed
  moreover have "fault ?e (Call_makedirs dest_dir) = None"
    by (simp add: short_memory_fault)
  ultimately have mk: "os_makedirs_on ?h ?e dest_dir used_world
      = (Inr (), used_world\<lparr>dirs := dirs used_world \<union> set (dir_chain dest_dir)\<rparr>)"
    by (rule os_makedirs_on_succeeds[rotated])
  let ?one = "used_world\<lparr>dirs := dirs used_world \<union> set (dir_chain dest_dir)\<rparr>"
  let ?two = "?one\<lparr>stdout := stdout ?one @ [Loading source_path]\<rparr>"
  have src: "files ?two (names ?h source_path) = Some (ImageFile ''PNG'' clear_dot)"
    using notes_not_source by (simp add: ns used_world_def fresh_world_def)
  have op: "Image_open_on ?h ?e source_path ?two = (Inr clear_dot, ?two)"
    using src
    by (simp add: Image_open_on_def bind_io_apply refused_def return_io_def short_memory_fault)
  have cv: "Image_convert ?e clear_dot ''RGBA'' ?two = (Inr clear_dot, ?two)"
    by (simp add: Image_convert_def bind_io_apply refused_def return_io_def short_memory_fault
        short_memory_convert)
  let ?three = "?two\<lparr>stdout := stdout ?two @ [Loaded (size_wh clear_dot)]\<rparr>"
  obtain vk where it0: "icon_iteration_on ?h ?e clear_dot (20, ''Icon-20.png'') ?three = (Inr (), vk)"
    using linked_first_icon[of ?three] by blast
  have pre: "for_each (take 1 icon_sizes) (icon_iteration_on ?h ?e clear_dot) ?three = (Inr (), vk)"
    using it0 by (rule for_each_first_icon[of "icon_iteration_on ?h ?e clear_dot"])
  let ?last = "vk\<lparr>stdout := stdout vk @ [Generating 29 ''Icon-29.png'']\<rparr>"
  have it1: "icon_iteration_on ?h ?e clear_dot (icon_sizes ! 1) vk = (Inl MemoryError, ?last)"
    by (simp add: icon_sizes_def linked_second_icon)
  have k: "1 < length icon_sizes"
    by (simp add: icon_sizes_def)
  have tb: "try_body_on ?h ?e ?two = (Inl MemoryError, ?last)"
    using try_body_on_loop_raises[OF op cv linked_console k pre it1] .
  have run: "generate_app_icons_on ?h ?e used_world
      = (Inr False, ?last\<lparr>stdout := stdout ?last @ [Error MemoryError]\<rparr>)"
    using generate_on_try_raises[OF mk linked_console linked_console tb] .
  have "files vk = (files ?three)(names ?h (os_path_join dest_dir ''Icon-20.png'') \<mapsto>
                        ImageFile ''PNG'' (icon_image ?e clear_dot 20))"
    using icon_iteration_on_files[OF it0] .
  then have "files vk notes_path = Some (ImageFile ''PNG'' (icon_image ?e clear_dot 20))"
    by (simp add: linked_names join_dest_dir)
  moreover have "files used_world notes_path = Some (Text ''keep'')"
    by (simp add: used_world_def)
  ultimately show ?thesis
    using run nn notes_not_output by simp
qed

text \<open>
  C10. The function is equal to the function with the test of line 50 and its \<open>else\<close> branch
  taken out: on every host, in every environment and from every world, the two return the same
  result and leave the same world, so the branch that keeps the resized image as it is is never
  taken. The reason is in the second part: an image converted to \<open>RGBA\<close> and then resized has
  mode \<open>RGBA\<close>.
\<close>

theorem skip_branch_never_taken:
  "generate_app_icons_on host env = generate_always_composite host env \<and>
   mode (resize_image env (convert_image env im ''RGBA'') (edge, edge) LANCZOS) = ''RGBA''"
  by (simp only: generate_app_icons_on_def generate_always_composite_def try_body_composites)
     (simp add: resize_image_def convert_image_def)

text \<open>
  C4, as the code has it. Let the directory be created, the line of line 34 be printed and the
  report of the exception \<open>e\<close> be printable. Then: if opening the source raises \<open>e\<close>, or
  converting it does, or iteration \<open>k\<close> of the loop does after the iterations before it
  returned, or the write of the manifest does, the function returns \<open>False\<close> and the world it
  leaves is the world at the raise with the report added: nothing runs after the raise. If all
  of them return and the last two lines are printed, the function returns \<open>True\<close>. And if every
  report is printable, the function returns a boolean whatever happens inside the \<open>try\<close>.
  Inside an iteration a raise of \<open>resize\<close>, \<open>Image.new\<close>, \<open>split\<close>, \<open>paste\<close> or \<open>save\<close> is a
  raise of the iteration, with the same exception and in the same world; inside the \<open>with\<close>
  block a raise of \<open>open\<close> or \<open>json.dump\<close> is a raise of the block.
\<close>

theorem step_failure_returns_False:
  assumes "os_makedirs_on host env dest_dir w = (Inr (), w1)"
    and "console host (Loading source_path) = None"
    and "v = w1\<lparr>stdout := stdout w1 @ [Loading source_path]\<rparr>"
    and "console host (Error e) = None"
  shows
   "(Image_open_on host env source_path v = (Inl e, v') \<longrightarrow>
       generate_app_icons_on host env w = (Inr False, v'\<lparr>stdout := stdout v' @ [Error e]\<rparr>))
    \<and>
    (Image_open_on host env source_path v = (Inr im, va) \<longrightarrow>
       (Image_convert env im ''RGBA'' va = (Inl e, v') \<longrightarrow>
          generate_app_icons_on host env w = (Inr False, v'\<lparr>stdout := stdout v' @ [Error e]\<rparr>))
       \<and>
       (Image_convert env im ''RGBA'' va = (Inr src, vb) \<and>
        console host (Loaded (size_wh src)) = None \<longrightarrow>
          (k < length icon_sizes \<and>
           for_each (take k icon_sizes) (icon_iteration_on host env src)
             (vb\<lparr>stdout := stdout vb @ [Loaded (size_wh src)]\<rparr>) = (Inr (), vk) \<and>
           icon_iteration_on host env src (icon_sizes ! k) vk = (Inl e, v') \<longrightarrow>
             generate_app_icons_on host env w = (Inr False, v'\<lparr>stdout := stdout v' @ [Error e]\<rparr>))
          \<and>
          (for_each icon_sizes (icon_iteration_on host env src)
             (vb\<lparr>stdout := stdout vb @ [Loaded (size_wh src)]\<rparr>) = (Inr (), vc) \<longrightarrow>
             (write_contents_on host env (os_path_join dest_dir ''Contents.json'') vc = (Inl e, v') \<longrightarrow>
                generate_app_icons_on host env w
                  = (Inr False, v'\<lparr>stdout := stdout v' @ [Error e]\<rparr>))
             \<and>
             (write_contents_on host env (os_path_join dest_dir ''Contents.json'') vc = (Inr (), vd) \<and>
              console host (GeneratedContents (os_path_join dest_dir ''Contents.json'')) = None \<and>
              console host Complete = None \<longrightarrow>
                generate_app_icons_on host env w
                  = (Inr True, vd\<lparr>stdout := stdout vd @
                       [GeneratedContents (os_path_join dest_dir ''Contents.json''), Complete]\<rparr>)))))
    \<and>
    ((\<forall>x. console host (Error x) = None) \<longrightarrow> (\<exists>b w'. generate_app_icons_on host env w = (Inr b, w')))
    \<and>
    (console host (Generating s fn) = None \<and> u1 = u\<lparr>stdout := stdout u @ [Generating s fn]\<rparr> \<longrightarrow>
       (Image_resize env src (s, s) LANCZOS u1 = (Inl e, u') \<longrightarrow>
          icon_iteration_on host env src (s, fn) u = (Inl e, u'))
       \<and>
       (Image_resize env src (s, s) LANCZOS u1 = (Inr resized, u2) \<and> mode resized = ''RGBA'' \<longrightarrow>
          (Image_new env ''RGB'' (s, s) [255, 255, 255] u2 = (Inl e, u') \<longrightarrow>
             icon_iteration_on host env src (s, fn) u = (Inl e, u'))
          \<and>
          (Image_new env ''RGB'' (s, s) [255, 255, 255] u2 = (Inr bg, u3) \<longrightarrow>
             (Image_split env resized u3 = (Inl e, u') \<longrightarrow>
                icon_iteration_on host env src (s, fn) u = (Inl e, u'))
             \<and>
             (Image_split env resized u3 = (Inr bands, u4) \<and> bands \<noteq> [] \<longrightarrow>
                (Image_paste env bg resized (last bands) u4 = (Inl e, u') \<longrightarrow>
                   icon_iteration_on host env src (s, fn) u = (Inl e, u'))
                \<and>
                (Image_paste env bg resized (last bands) u4 = (Inr flat, u5) \<and>
                 Image_save_on host env flat (os_path_join dest_dir fn) ''PNG'' u5 = (Inl e, u') \<longrightarrow>
                   icon_iteration_on host env src (s, fn) u = (Inl e, u'))))))
    \<and>
    (open_w_on host env p u = (Inl e, u') \<longrightarrow> write_contents_on host env p u = (Inl e, u'))
    \<and>
    (open_w_on host env p u = (Inr f, u1) \<and> json_dump_on host env contents_json f 2 u1 = (Inl e, u') \<longrightarrow>
       write_contents_on host env p u = (Inl e, u'))"
proof -
  let ?G = "generate_app_icons_on host env w"
  let ?R = "?G = (Inr False, v'\<lparr>stdout := stdout v' @ [Error e]\<rparr>)"
  have G: "?G = (case try_body_on host env v of
        (Inl e, w3) \<Rightarrow>
          (case console host (Error e) of
             Some x \<Rightarrow> (Inl x, w3)
           | None \<Rightarrow> (Inr False, w3\<lparr>stdout := stdout w3 @ [Error e]\<rparr>))
      | (Inr u, w3) \<Rightarrow> (Inr True, w3))"
    by (simp add: generate_on_unfold assms(1,2,3))
  have fails: ?R if "try_body_on host env v = (Inl e, v')"
    using that assms(4) by (simp add: G)
  have A: ?R if "Image_open_on host env source_path v = (Inl e, v')"
    using that by (intro fails) (simp add: try_body_on_unfold)
  have B: ?R if "Image_open_on host env source_path v = (Inr im, va)"
    "Image_convert env im ''RGBA'' va = (Inl e, v')"
    using that by (intro fails) (simp add: try_body_on_unfold)
  have D: ?R if "Image_open_on host env source_path v = (Inr im, va)"
    "Image_convert env im ''RGBA'' va = (Inr src, vb)"
    "console host (Loaded (size_wh src)) = None"
    "for_each icon_sizes (icon_iteration_on host env src)
             (vb\<lparr>stdout := stdout vb @ [Loaded (size_wh src)]\<rparr>) = (Inl e, v')"
    using that by (intro fails) (simp add: try_body_on_unfold)
  have C: ?R if "Image_open_on host env source_path v = (Inr im, va)"
    "Image_convert env im ''RGBA'' va = (Inr src, vb)"
    "console host (Loaded (size_wh src)) = None"
    "k < length icon_sizes"
    "for_each (take k icon_sizes) (icon_iteration_on host env src)
             (vb\<lparr>stdout := stdout vb @ [Loaded (size_wh src)]\<rparr>) = (Inr (), vk)"
    "icon_iteration_on host env src (icon_sizes ! k) vk = (Inl e, v')"
    using D[OF that(1,2,3) loop_abort[OF that(4,5,6)]] .
  have E: ?R if "Image_open_on host env source_path v = (Inr im, va)"
    "Image_convert env im ''RGBA'' va = (Inr src, vb)"
    "console host (Loaded (size_wh src)) = None"
    "for_each icon_sizes (icon_iteration_on host env src)
             (vb\<lparr>stdout := stdout vb @ [Loaded (size_wh src)]\<rparr>) = (Inr (), vc)"
    "write_contents_on host env (os_path_join dest_dir ''Contents.json'') vc = (Inl e, v')"
    using that by (intro fails) (simp add: try_body_on_unfold)
  have F: "?G = (Inr True, vd\<lparr>stdout := stdout vd @
                       [GeneratedContents (os_path_join dest_dir ''Contents.json''), Complete]\<rparr>)"
    if "Image_open_on host env source_path v = (Inr im, va)"
    "Image_convert env im ''RGBA'' va = (Inr src, vb)"
    "console host (Loaded (size_wh src)) = None"
    "for_each icon_sizes (icon_iteration_on host env src)
             (vb\<lparr>stdout := stdout vb @ [Loaded (size_wh src)]\<rparr>) = (Inr (), vc)"
    "write_contents_on host env (os_path_join dest_dir ''Contents.json'') vc = (Inr (), vd)"
    "console host (GeneratedContents (os_path_join dest_dir ''Contents.json'')) = None"
    "console host Complete = None"
    using that by (simp add: G try_body_on_unfold)
  have H: "\<exists>b w'. ?G = (Inr b, w')" if "\<forall>x. console host (Error x) = None"
  proof (cases "try_body_on host env v")
    case (Pair r v3)
    then show ?thesis
      using that by (cases r) (auto simp: G)
  qed
  note I = iteration_raise_propagates[of host s fn u1 u env src e u' resized u2 bg u3 bands u4 flat u5]
  note M = manifest_raise_propagates[of host env p u e u' f u1]
  show ?thesis
  proof (intro conjI)
    show "console host (Generating s fn) = None \<and> u1 = u\<lparr>stdout := stdout u @ [Generating s fn]\<rparr> \<longrightarrow>
       (Image_resize env src (s, s) LANCZOS u1 = (Inl e, u') \<longrightarrow>
          icon_iteration_on host env src (s, fn) u = (Inl e, u'))
       \<and>
       (Image_resize env src (s, s) LANCZOS u1 = (Inr resized, u2) \<and> mode resized = ''RGBA'' \<longrightarrow>
          (Image_new env ''RGB'' (s, s) [255, 255, 255] u2 = (Inl e, u') \<longrightarrow>
             icon_iteration_on host env src (s, fn) u = (Inl e, u'))
          \<and>
          (Image_new env ''RGB'' (s, s) [255, 255, 255] u2 = (Inr bg, u3) \<longrightarrow>
             (Image_split env resized u3 = (Inl e, u') \<longrightarrow>
                icon_iteration_on host env src (s, fn) u = (Inl e, u'))
             \<and>
             (Image_split env resized u3 = (Inr bands, u4) \<and> bands \<noteq> [] \<longrightarrow>
                (Image_paste env bg resized (last bands) u4 = (Inl e, u') \<longrightarrow>
                   icon_iteration_on host env src (s, fn) u = (Inl e, u'))
                \<and>
                (Image_paste env bg resized (last bands) u4 = (Inr flat, u5) \<and>
                 Image_save_on host env flat (os_path_join dest_dir fn) ''PNG'' u5 = (Inl e, u') \<longrightarrow>
                   icon_iteration_on host env src (s, fn) u = (Inl e, u')))))"
      using I by blast
  qed (use A B C E F H M in blast)+
qed


theorem step_failure_returns_False_witness:
  "os_makedirs_on plain_host plain_env dest_dir empty_world
     = (Inr (), empty_world\<lparr>dirs := set (dir_chain dest_dir)\<rparr>) \<and>
   console plain_host (Loading source_path) = None \<and>
   console plain_host (Error (FileNotFoundError source_path)) = None \<and>
   Image_open_on plain_host plain_env source_path
       (empty_world\<lparr>dirs := set (dir_chain dest_dir), stdout := [Loading source_path]\<rparr>)
     = (Inl (FileNotFoundError source_path),
        empty_world\<lparr>dirs := set (dir_chain dest_dir), stdout := [Loading source_path]\<rparr>) \<and>
   generate_app_icons_on plain_host plain_env empty_world
     = (Inr False, empty_world\<lparr>dirs := set (dir_chain dest_dir),
          stdout := [Loading source_path, Error (FileNotFoundError source_path)]\<rparr>)"
proof -
  let ?one = "empty_world\<lparr>dirs := set (dir_chain dest_dir)\<rparr>"
  let ?two = "?one\<lparr>stdout := stdout ?one @ [Loading source_path]\<rparr>"
  have "\<forall>d\<in>set (dir_chain dest_dir). files empty_world (names plain_host d) = None"
    by (simp add: empty_world_def)
  from os_makedirs_on_succeeds[OF plain_no_fault this]
  have mk: "os_makedirs_on plain_host plain_env dest_dir empty_world = (Inr (), ?one)"
    by (simp add: empty_world_def)
  have c: "console plain_host (Loading source_path) = None"
    and ce: "console plain_host (Error (FileNotFoundError source_path)) = None"
    by (simp_all add: console_plain)
  have "files ?two (names plain_host source_path) = None"
    by (simp add: empty_world_def)
  from Image_open_on_missing[OF plain_no_fault this]
  have op: "Image_open_on plain_host plain_env source_path ?two
      = (Inl (FileNotFoundError source_path), ?two)" .
  note t = step_failure_returns_False[OF mk c refl ce, THEN conjunct1, rule_format, OF op]
  have two: "?two = empty_world\<lparr>dirs := set (dir_chain dest_dir), stdout := [Loading source_path]\<rparr>"
    by (simp add: empty_world_def)
  from t have "generate_app_icons_on plain_host plain_env empty_world
     = (Inr False, empty_world\<lparr>dirs := set (dir_chain dest_dir),
          stdout := [Loading source_path, Error (FileNotFoundError source_path)]\<rparr>)"
    by (simp add: empty_world_def)
  with mk c ce op[unfolded two] show ?thesis by simp
qed

text \<open>
  C4 as stated fails at step 1: \<open>os.makedirs\<close> stands before the \<open>try\<close>, and where the directory
  may not be created its exception leaves the function.
\<close>

theorem makedirs_failure_propagates:
  "os_makedirs_on plain_host denied_env dest_dir fresh_world
     = (Inl (OSError ''Permission denied''), fresh_world) \<and>
   generate_app_icons_on plain_host denied_env fresh_world
     = (Inl (OSError ''Permission denied''), fresh_world)"
proof -
  have mk: "os_makedirs_on plain_host denied_env dest_dir fresh_world
      = (Inl (OSError ''Permission denied''), fresh_world)"
    by (simp add: os_makedirs_on_def bind_io_apply refused_def raise_io_def denied_env_def)
  then have "generate_app_icons_on plain_host denied_env fresh_world
      = (Inl (OSError ''Permission denied''), fresh_world)"
    by (simp add: generate_on_unfold)
  with mk show ?thesis by simp
qed

text \<open>
  C5, as the code has it. When the destination directory could be created, the line of line 34
  and the report can be printed, and the source path names no image file (it is missing or is
  not an image) or opening or decoding it is refused, the function returns \<open>False\<close>, the
  destination directory exists, no file has changed, no write has completed, and the two lines
  printed are the loading line and the report.
\<close>

theorem missing_source_returns_False:
  assumes "os_makedirs_on host env dest_dir w = (Inr (), w1)"
    and "console host (Loading source_path) = None"
    and "\<forall>x. console host (Error x) = None"
    and "(\<forall>fmt im. files w (names host source_path) \<noteq> Some (ImageFile fmt im)) \<or>
         fault env (Call_Image_open source_path) \<noteq> None \<or>
         fault env (Call_convert ''RGBA'') \<noteq> None"
  shows "\<exists>e w'. generate_app_icons_on host env w = (Inr False, w') \<and>
           dest_dir \<in> dirs w' \<and> files w' = files w \<and> written w' = written w \<and>
           stdout w' = stdout w @ [Loading source_path, Error e]"
proof -
  let ?v = "w1\<lparr>stdout := stdout w1 @ [Loading source_path]\<rparr>"
  note a = os_makedirs_on_Inr[OF assms(1)]
  have "(\<forall>fmt im. files ?v (names host source_path) \<noteq> Some (ImageFile fmt im)) \<or>
         fault env (Call_Image_open source_path) \<noteq> None \<or>
         fault env (Call_convert ''RGBA'') \<noteq> None"
    using assms(4) a by simp
  from try_body_on_load_fails[OF this] obtain e where tb: "try_body_on host env ?v = (Inl e, ?v)"
    by blast
  have run: "generate_app_icons_on host env w = (Inr False, ?v\<lparr>stdout := stdout ?v @ [Error e]\<rparr>)"
    using assms(3) by (simp only: generate_on_unfold assms(1,2) tb prod.case sum.case option.case)
  have "dest_dir \<in> dirs (?v\<lparr>stdout := stdout ?v @ [Error e]\<rparr>)"
    using a dir_chain_self[OF dest_dir_nonempty] by simp
  moreover have "files (?v\<lparr>stdout := stdout ?v @ [Error e]\<rparr>) = files w"
    and "written (?v\<lparr>stdout := stdout ?v @ [Error e]\<rparr>) = written w"
    and "stdout (?v\<lparr>stdout := stdout ?v @ [Error e]\<rparr>) = stdout w @ [Loading source_path, Error e]"
    using a by simp_all
  ultimately show ?thesis using run by blast
qed

theorem missing_source_returns_False_witness:
  "os_makedirs_on plain_host plain_env dest_dir empty_world
     = (Inr (), empty_world\<lparr>dirs := set (dir_chain dest_dir)\<rparr>) \<and>
   console plain_host (Loading source_path) = None \<and>
   files empty_world (names plain_host source_path) = None \<and>
   fst (generate_app_icons_on plain_host plain_env empty_world) = Inr False \<and>
   dest_dir \<in> dirs (snd (generate_app_icons_on plain_host plain_env empty_world)) \<and>
   files (snd (generate_app_icons_on plain_host plain_env empty_world)) = Map.empty \<and>
   written (snd (generate_app_icons_on plain_host plain_env empty_world)) = []"
proof -
  have "\<forall>d\<in>set (dir_chain dest_dir). files empty_world (names plain_host d) = None"
    by (simp add: empty_world_def)
  from os_makedirs_on_succeeds[OF plain_no_fault this]
  have mk: "os_makedirs_on plain_host plain_env dest_dir empty_world
      = (Inr (), empty_world\<lparr>dirs := set (dir_chain dest_dir)\<rparr>)"
    by (simp add: empty_world_def)
  have f: "files empty_world (names plain_host source_path) = None"
    by (simp add: empty_world_def)
  then have h: "(\<forall>fmt im. files empty_world (names plain_host source_path) \<noteq> Some (ImageFile fmt im)) \<or>
         fault plain_env (Call_Image_open source_path) \<noteq> None \<or>
         fault plain_env (Call_convert ''RGBA'') \<noteq> None"
    by simp
  have c: "console plain_host (Loading source_path) = None"
    and ce: "\<forall>x. console plain_host (Error x) = None"
    by (simp_all add: console_plain)
  from missing_source_returns_False[OF mk c ce h] obtain e w' where
    "generate_app_icons_on plain_host plain_env empty_world = (Inr False, w')"
    "dest_dir \<in> dirs w'" "files w' = files empty_world" "written w' = written empty_world"
    by blast
  with mk f c show ?thesis
    by (simp add: empty_world_def)
qed

text \<open>
  C5 as stated fails in two ways, both before the \<open>try\<close>. Where a regular file stands at the
  destination path, \<open>os.makedirs\<close> raises and no directory is created. Where the terminal cannot
  encode the line of line 34, the directory is created but \<open>print\<close> raises. In both the source
  is missing and the function does not return.
\<close>

theorem missing_source_may_raise:
  "files blocked_world (names plain_host source_path) = None \<and>
   generate_app_icons_on plain_host plain_env blocked_world
     = (Inl (FileExistsError dest_dir), blocked_world) \<and>
   dest_dir \<notin> dirs blocked_world \<and>
   files empty_world (names ascii_host source_path) = None \<and>
   os_makedirs_on ascii_host plain_env dest_dir empty_world
     = (Inr (), empty_world\<lparr>dirs := set (dir_chain dest_dir)\<rparr>) \<and>
   generate_app_icons_on ascii_host plain_env empty_world
     = (Inl UnicodeEncodeError, empty_world\<lparr>dirs := set (dir_chain dest_dir)\<rparr>)"
proof -
  have ne: "source_path \<noteq> dest_dir"
    by (simp add: source_path_def dest_dir_def)
  have f: "files blocked_world = (\<lambda>d. if d = dest_dir then Some (Text ''not a directory'') else None)"
    by (auto simp: blocked_world_def empty_world_def)
  have "find (\<lambda>d. files blocked_world (names plain_host d) \<noteq> None) (dir_chain dest_dir) = Some dest_dir"
    using find_eq_Some[OF dir_chain_self[OF dest_dir_nonempty]] by (simp add: f names_plain)
  then have "os_makedirs_on plain_host plain_env dest_dir blocked_world
      = (Inl (FileExistsError dest_dir), blocked_world)"
    by (simp add: os_makedirs_on_def bind_io_apply refused_def plain_no_fault return_io_def)
  then have blocked: "generate_app_icons_on plain_host plain_env blocked_world
      = (Inl (FileExistsError dest_dir), blocked_world)"
    by (simp add: generate_on_unfold)
  have d: "dirs blocked_world = {}"
    by (simp add: blocked_world_def empty_world_def)
  have "\<forall>d\<in>set (dir_chain dest_dir). files empty_world (names ascii_host d) = None"
    by (simp add: empty_world_def)
  from os_makedirs_on_succeeds[OF plain_no_fault this]
  have mk: "os_makedirs_on ascii_host plain_env dest_dir empty_world
      = (Inr (), empty_world\<lparr>dirs := set (dir_chain dest_dir)\<rparr>)"
    by (simp add: empty_world_def)
  have "console ascii_host (Loading source_path) = Some UnicodeEncodeError"
    by (simp add: ascii_host_def)
  then have ascii: "generate_app_icons_on ascii_host plain_env empty_world
     = (Inl UnicodeEncodeError, empty_world\<lparr>dirs := set (dir_chain dest_dir)\<rparr>)"
    by (simp add: generate_on_unfold mk)
  from blocked ascii mk d ne show ?thesis
    by (simp add: f names_plain empty_world_def)
qed

end
